theory Spec2Isabelle
  imports Complex_Main "HOL-Library.Multiset"
begin

section \<open>HR Nexus marketplace server: persistence store, HTTP API and chat relay\<close>

text \<open>
  The server keeps five SQLite tables (created by the DDL at start-up), serves a REST
  API over them with Express, and relays chat messages over Socket.IO. The store is
  modelled by explicit state passing: a table is the list of its rows in rowid order,
  a statement is a function from the store to an error or the new store, and a handler
  returns its response together with the store it leaves behind.

  Scope of the model. A request body is an already parsed JSON object; every field the
  handler destructures is either missing (\<open>Undefined\<close>), JSON null (\<open>Null\<close>) or a
  value of the type that \<open>types.ts\<close> declares for it (text as \<open>string\<close>, numbers as
  integers). The statements follow SQLite's semantics for the declared constraints
  (NOT NULL, then CHECK, then PRIMARY KEY / UNIQUE, then FOREIGN KEY when enforced;
  a NULL key never conflicts). Whether foreign keys are enforced is a setting of the
  database connection and not of the server's code, so it is a parameter
  (\<open>foreign_keys\<close>) of the environment; the driver used here, better-sqlite3, turns
  it on unless told otherwise. The clock, the identifiers drawn from
  \<open>crypto.randomUUID()\<close> and the outcome of the hosted text model are inputs of the
  environment as well. Error messages are kept as values of a datatype (the kind of
  constraint and the column) rather than as the driver's message text.
\<close>

subsection \<open>JavaScript values and statement parameters\<close>

datatype 'a js = Undefined | Null | Val 'a

text \<open>A statement parameter: \<open>undefined\<close> and \<open>null\<close> are both bound as SQL NULL.\<close>

fun bind_param :: "'a js \<Rightarrow> 'a option" where
  "bind_param Undefined = None"
| "bind_param Null = None"
| "bind_param (Val v) = Some v"

text \<open>
  \<open>Math.floor(budget_min * c)\<close>. The multiplication converts its operand to a number:
  \<open>undefined\<close> becomes NaN, \<open>null\<close> becomes 0. The result \<open>None\<close> stands for NaN,
  which is bound as SQL NULL.
\<close>

fun to_number :: "int js \<Rightarrow> real option" where
  "to_number Undefined = None"
| "to_number Null = Some 0"
| "to_number (Val n) = Some (real_of_int n)"

definition math_floor_times :: "int js \<Rightarrow> real \<Rightarrow> int option" where
  "math_floor_times b c = map_option (\<lambda>x. \<lfloor>x * c\<rfloor>) (to_number b)"

subsection \<open>Tables\<close>

record user =
  u_id :: "string option"
  u_name :: string
  u_email :: string
  u_role :: string
  u_bio :: "string option"
  u_avatar :: "string option"

record project =
  p_id :: "string option"
  p_buyer_id :: string
  p_title :: string
  p_description :: string
  p_budget_min :: "int option"
  p_budget_max :: "int option"
  p_status :: string
  p_created_at :: nat

record bid =
  b_id :: "string option"
  b_project_id :: string
  b_seller_id :: string
  b_amount :: int
  b_proposal :: string
  b_status :: string
  b_created_at :: nat

record message =
  m_id :: nat
  m_sender_id :: string
  m_receiver_id :: string
  m_content :: string
  m_timestamp :: nat

record milestone =
  ms_id :: "string option"
  ms_project_id :: string
  ms_title :: string
  ms_amount :: int
  ms_status :: string

record db =
  users :: "user list"
  projects :: "project list"
  bids :: "bid list"
  messages :: "message list"
  milestones :: "milestone list"

datatype error =
    NotNullFailed string
  | CheckFailed string
  | UniqueFailed string
  | ForeignKeyFailed
  | GatewayFailed string

text \<open>A key conflicts with the stored keys when it is not NULL and already present.\<close>

definition key_taken :: "'a option \<Rightarrow> 'a option list \<Rightarrow> bool" where
  "key_taken k ks = (k \<noteq> None \<and> k \<in> set ks)"

text \<open>The seed rows of the start-up script, inserted at time \<open>t0\<close>.\<close>

definition seed_db :: "nat \<Rightarrow> db" where
  "seed_db t0 =
     \<lparr> users =
         [ \<lparr> u_id = Some ''buyer_1'', u_name = ''Acme Corp HR'', u_email = ''hr@acme.com'',
             u_role = ''buyer'',
             u_bio = Some ''Fast-growing tech startup looking for HR expertise.'',
             u_avatar = Some ''https://api.dicebear.com/7.x/avataaars/svg?seed=Acme'' \<rparr>,
           \<lparr> u_id = Some ''seller_1'', u_name = ''Sarah Jenkins'',
             u_email = ''sarah@hrconsulting.com'', u_role = ''seller'',
             u_bio = Some ''Senior HR Consultant with 10 years experience in tech recruitment and organizational design.'',
             u_avatar = Some ''https://api.dicebear.com/7.x/avataaars/svg?seed=Sarah'' \<rparr> ],
       projects =
         [ \<lparr> p_id = Some ''p1'', p_buyer_id = ''buyer_1'',
             p_title = ''Technical Recruitment for Engineering Team'',
             p_description = ''We are looking for a specialized recruiter to help us hire 5 senior software engineers and 2 product managers over the next 3 months.'',
             p_budget_min = Some 5000, p_budget_max = Some 15000,
             p_status = ''open'', p_created_at = t0 \<rparr>,
           \<lparr> p_id = Some ''p2'', p_buyer_id = ''buyer_1'',
             p_title = ''Organizational Culture Audit'',
             p_description = ''Need an HR expert to conduct a full culture audit and provide recommendations for improving employee engagement in a remote-first environment.'',
             p_budget_min = Some 3000, p_budget_max = Some 8000,
             p_status = ''open'', p_created_at = t0 \<rparr> ],
       bids = [], messages = [], milestones = [] \<rparr>"

subsection \<open>Statements\<close>

text \<open>
  \<open>INSERT INTO projects (id, buyer_id, title, description, budget_min, budget_max)\<close>;
  status and created_at take their defaults.
\<close>

definition insert_project ::
  "bool \<Rightarrow> nat \<Rightarrow> db \<Rightarrow> string option \<Rightarrow> string option \<Rightarrow> string option \<Rightarrow> string option
     \<Rightarrow> int option \<Rightarrow> int option \<Rightarrow> error + db" where
  "insert_project fk now d i buyer t de bmin bmax =
     (if buyer = None then Inl (NotNullFailed ''projects.buyer_id'')
      else if t = None then Inl (NotNullFailed ''projects.title'')
      else if de = None then Inl (NotNullFailed ''projects.description'')
      else if key_taken i (map p_id (projects d)) then Inl (UniqueFailed ''projects.id'')
      else if fk \<and> buyer \<notin> set (map u_id (users d)) then Inl ForeignKeyFailed
      else Inr (d\<lparr>projects := projects d @
             [\<lparr> p_id = i, p_buyer_id = the buyer, p_title = the t, p_description = the de,
                p_budget_min = bmin, p_budget_max = bmax, p_status = ''open'',
                p_created_at = now \<rparr>]\<rparr>))"

text \<open>\<open>INSERT INTO milestones (id, project_id, title, amount)\<close>; status defaults to pending.\<close>

definition milestone_row ::
  "string option \<Rightarrow> string option \<Rightarrow> string option \<Rightarrow> int option \<Rightarrow> milestone" where
  "milestone_row i pid t amt =
     \<lparr> ms_id = i, ms_project_id = the pid, ms_title = the t, ms_amount = the amt,
       ms_status = ''pending'' \<rparr>"

definition insert_milestone ::
  "bool \<Rightarrow> db \<Rightarrow> string option \<Rightarrow> string option \<Rightarrow> string option \<Rightarrow> int option \<Rightarrow> error + db" where
  "insert_milestone fk d i pid t amt =
     (if pid = None then Inl (NotNullFailed ''milestones.project_id'')
      else if t = None then Inl (NotNullFailed ''milestones.title'')
      else if amt = None then Inl (NotNullFailed ''milestones.amount'')
      else if key_taken i (map ms_id (milestones d)) then Inl (UniqueFailed ''milestones.id'')
      else if fk \<and> pid \<notin> set (map p_id (projects d)) then Inl ForeignKeyFailed
      else Inr (d\<lparr>milestones := milestones d @ [milestone_row i pid t amt]\<rparr>))"

text \<open>\<open>INSERT INTO bids (id, project_id, seller_id, amount, proposal)\<close>.\<close>

definition insert_bid ::
  "bool \<Rightarrow> nat \<Rightarrow> db \<Rightarrow> string option \<Rightarrow> string option \<Rightarrow> string option \<Rightarrow> int option
     \<Rightarrow> string option \<Rightarrow> error + db" where
  "insert_bid fk now d i pid sid amt prop =
     (if pid = None then Inl (NotNullFailed ''bids.project_id'')
      else if sid = None then Inl (NotNullFailed ''bids.seller_id'')
      else if amt = None then Inl (NotNullFailed ''bids.amount'')
      else if prop = None then Inl (NotNullFailed ''bids.proposal'')
      else if key_taken i (map b_id (bids d)) then Inl (UniqueFailed ''bids.id'')
      else if fk \<and> (pid \<notin> set (map p_id (projects d)) \<or> sid \<notin> set (map u_id (users d)))
        then Inl ForeignKeyFailed
      else Inr (d\<lparr>bids := bids d @
             [\<lparr> b_id = i, b_project_id = the pid, b_seller_id = the sid, b_amount = the amt,
                b_proposal = the prop, b_status = ''pending'', b_created_at = now \<rparr>]\<rparr>))"

text \<open>
  \<open>INSERT INTO messages (sender_id, receiver_id, content)\<close>: the id is the next value
  of the AUTOINCREMENT key, the timestamp the current time. The new row is returned
  with the store.
\<close>

definition next_message_id :: "db \<Rightarrow> nat" where
  "next_message_id d = Suc (fold max (map m_id (messages d)) 0)"

definition insert_message ::
  "nat \<Rightarrow> db \<Rightarrow> string option \<Rightarrow> string option \<Rightarrow> string option \<Rightarrow> error + (message \<times> db)" where
  "insert_message now d s r c =
     (if s = None then Inl (NotNullFailed ''messages.sender_id'')
      else if r = None then Inl (NotNullFailed ''messages.receiver_id'')
      else if c = None then Inl (NotNullFailed ''messages.content'')
      else (let row = \<lparr> m_id = next_message_id d, m_sender_id = the s, m_receiver_id = the r,
                         m_content = the c, m_timestamp = now \<rparr>
            in Inr (row, d\<lparr>messages := messages d @ [row]\<rparr>)))"

text \<open>
  \<open>INSERT OR REPLACE INTO users (id, name, email, role, bio, avatar)\<close>. A NOT NULL or
  CHECK violation aborts the statement. A row whose primary key or whose unique email
  equals the new row's is deleted before the new row is inserted. With foreign keys
  enforced, the statement fails when a deleted row is still referenced by a project or
  a bid after the new row is in place, that is, when a deleted row with another id than
  the new one is referenced.
\<close>

definition replaces :: "string option \<Rightarrow> string \<Rightarrow> user \<Rightarrow> bool" where
  "replaces i e u = ((i \<noteq> None \<and> u_id u = i) \<or> u_email u = e)"

definition referenced :: "db \<Rightarrow> user \<Rightarrow> bool" where
  "referenced d u =
     (u_id u \<noteq> None \<and>
      (u_id u \<in> set (map (\<lambda>p. Some (p_buyer_id p)) (projects d)) \<or>
       u_id u \<in> set (map (\<lambda>b. Some (b_seller_id b)) (bids d))))"

definition insert_or_replace_user ::
  "bool \<Rightarrow> db \<Rightarrow> string option \<Rightarrow> string option \<Rightarrow> string option \<Rightarrow> string option
     \<Rightarrow> string option \<Rightarrow> string option \<Rightarrow> error + db" where
  "insert_or_replace_user fk d i n e r bio av =
     (if n = None then Inl (NotNullFailed ''users.name'')
      else if e = None then Inl (NotNullFailed ''users.email'')
      else if r = None then Inl (NotNullFailed ''users.role'')
      else if r \<noteq> Some ''buyer'' \<and> r \<noteq> Some ''seller'' then Inl (CheckFailed ''users.role'')
      else if fk \<and> list_ex (\<lambda>u. replaces i (the e) u \<and> u_id u \<noteq> i \<and> referenced d u) (users d)
        then Inl ForeignKeyFailed
      else Inr (d\<lparr>users := filter (\<lambda>u. \<not> replaces i (the e) u) (users d) @
             [\<lparr> u_id = i, u_name = the n, u_email = the e, u_role = the r,
                u_bio = bio, u_avatar = av \<rparr>]\<rparr>))"

subsection \<open>Queries\<close>

text \<open>
  \<open>SELECT projects.*, users.name as buyer_name FROM projects JOIN users ON
  projects.buyer_id = users.id ORDER BY created_at DESC\<close>: a row is a project paired
  with its buyer's name. Rows of equal created_at are left in scan order.
\<close>

definition select_projects :: "db \<Rightarrow> (project \<times> string) list" where
  "select_projects d =
     sort_key (\<lambda>row. - int (p_created_at (fst row)))
       (concat (map (\<lambda>p. map (\<lambda>u. (p, u_name u))
                            (filter (\<lambda>u. u_id u = Some (p_buyer_id p)) (users d)))
                    (projects d)))"

text \<open>\<open>SELECT * FROM users WHERE id = ?\<close>, first row.\<close>

definition select_user :: "db \<Rightarrow> string \<Rightarrow> user option" where
  "select_user d i = find (\<lambda>u. u_id u = Some i) (users d)"

text \<open>
  \<open>SELECT bids.*, users.name as seller_name FROM bids JOIN users ON bids.seller_id =
  users.id WHERE project_id = ?\<close>.
\<close>

definition select_bids :: "db \<Rightarrow> string \<Rightarrow> (bid \<times> string) list" where
  "select_bids d pid =
     concat (map (\<lambda>b. map (\<lambda>u. (b, u_name u))
                         (filter (\<lambda>u. u_id u = Some (b_seller_id b)) (users d)))
                 (filter (\<lambda>b. b_project_id b = pid) (bids d)))"

text \<open>\<open>SELECT * FROM milestones WHERE project_id = ?\<close>.\<close>

definition select_milestones :: "db \<Rightarrow> string \<Rightarrow> milestone list" where
  "select_milestones d pid = filter (\<lambda>m. ms_project_id m = pid) (milestones d)"

text \<open>\<open>SELECT * FROM projects WHERE id = ?\<close>, first row.\<close>

definition select_project :: "db \<Rightarrow> string \<Rightarrow> project option" where
  "select_project d i = find (\<lambda>p. p_id p = Some i) (projects d)"

text \<open>\<open>SELECT * FROM users WHERE role = 'seller'\<close>.\<close>

definition select_sellers :: "db \<Rightarrow> user list" where
  "select_sellers d = filter (\<lambda>u. u_role u = ''seller'') (users d)"

subsection \<open>HTTP API\<close>

record project_body =
  pb_id :: "string js"
  pb_buyer_id :: "string js"
  pb_title :: "string js"
  pb_description :: "string js"
  pb_budget_min :: "int js"
  pb_budget_max :: "int js"

record user_body =
  ub_id :: "string js"
  ub_name :: "string js"
  ub_email :: "string js"
  ub_role :: "string js"
  ub_bio :: "string js"
  ub_avatar :: "string js"

record bid_body =
  bb_id :: "string js"
  bb_project_id :: "string js"
  bb_seller_id :: "string js"
  bb_amount :: "int js"
  bb_proposal :: "string js"

record milestone_body =
  mb_id :: "string js"
  mb_project_id :: "string js"
  mb_title :: "string js"
  mb_amount :: "int js"

datatype request =
    GET_projects
  | POST_projects project_body
  | GET_user string
  | POST_users user_body
  | GET_bids string
  | POST_bids bid_body
  | GET_milestones string
  | POST_milestones milestone_body
  | GET_matchmaking string

text \<open>
  Response bodies: \<open>Success\<close> is \<open>{ success: true }\<close>, \<open>Failure e\<close> is
  \<open>{ error: err.message }\<close> for the caught error \<open>e\<close>, \<open>ErrorText s\<close> is
  \<open>{ error: s }\<close> for a literal of the handler.
\<close>

datatype body =
    Success
  | Failure error
  | ErrorText string
  | ProjectList "(project \<times> string) list"
  | UserJson user
  | BidList "(bid \<times> string) list"
  | MilestoneList "milestone list"
  | Advice string

record response =
  status :: nat
  body :: body

text \<open>
  The environment of one request: the connection's foreign-key setting, the clock, the
  three identifiers that \<open>crypto.randomUUID()\<close> returns, and the outcome of
  \<open>getMatchmakingAdvice(description, bios)\<close>, which forwards a prompt to the hosted
  model and either returns its text or throws.
\<close>

record env =
  foreign_keys :: bool
  now :: nat
  uuid1 :: string
  uuid2 :: string
  uuid3 :: string
  getMatchmakingAdvice :: "string \<Rightarrow> string list \<Rightarrow> error + string"

definition json :: "body \<Rightarrow> response" where
  "json b = \<lparr> status = 200, body = b \<rparr>"

definition created :: response where
  "created = \<lparr> status = 201, body = Success \<rparr>"

definition server_error :: "error \<Rightarrow> response" where
  "server_error e = \<lparr> status = 500, body = Failure e \<rparr>"

definition not_found :: "string \<Rightarrow> response" where
  "not_found s = \<lparr> status = 404, body = ErrorText s \<rparr>"

text \<open>
  The loop \<open>for (const m of milestones) insertMilestone.run(...)\<close>: each row is
  committed by its own statement; the first failure throws and leaves the rows
  inserted so far.
\<close>

fun insert_milestones ::
  "bool \<Rightarrow> db \<Rightarrow> (string option \<times> string option \<times> string option \<times> int option) list
     \<Rightarrow> error option \<times> db" where
  "insert_milestones fk d [] = (None, d)"
| "insert_milestones fk d ((i, pid, t, amt) # ms) =
     (case insert_milestone fk d i pid t amt of
        Inl e \<Rightarrow> (Some e, d)
      | Inr d' \<Rightarrow> insert_milestones fk d' ms)"

text \<open>The three milestones that the create-project handler builds from the body.\<close>

definition auto_milestones ::
  "env \<Rightarrow> project_body \<Rightarrow> (string option \<times> string option \<times> string option \<times> int option) list" where
  "auto_milestones en b =
     [ (Some (uuid1 en), bind_param (pb_id b), Some ''Project Kickoff & Strategy'',
          math_floor_times (pb_budget_min b) 0.2),
       (Some (uuid2 en), bind_param (pb_id b), Some ''Initial Talent Sourcing'',
          math_floor_times (pb_budget_min b) 0.4),
       (Some (uuid3 en), bind_param (pb_id b), Some ''Final Placement & Onboarding'',
          math_floor_times (pb_budget_min b) 0.4) ]"

definition post_projects :: "env \<Rightarrow> db \<Rightarrow> project_body \<Rightarrow> response \<times> db" where
  "post_projects en d b =
     (case insert_project (foreign_keys en) (now en) d (bind_param (pb_id b))
             (bind_param (pb_buyer_id b)) (bind_param (pb_title b))
             (bind_param (pb_description b)) (bind_param (pb_budget_min b))
             (bind_param (pb_budget_max b)) of
        Inl e \<Rightarrow> (server_error e, d)
      | Inr d1 \<Rightarrow>
          (case insert_milestones (foreign_keys en) d1 (auto_milestones en b) of
             (Some e, d2) \<Rightarrow> (server_error e, d2)
           | (None, d2) \<Rightarrow> (created, d2)))"

definition get_projects :: "db \<Rightarrow> response" where
  "get_projects d = json (ProjectList (select_projects d))"

definition get_user :: "db \<Rightarrow> string \<Rightarrow> response" where
  "get_user d i =
     (case select_user d i of
        Some u \<Rightarrow> json (UserJson u)
      | None \<Rightarrow> not_found ''User not found'')"

definition post_users :: "env \<Rightarrow> db \<Rightarrow> user_body \<Rightarrow> response \<times> db" where
  "post_users en d b =
     (case insert_or_replace_user (foreign_keys en) d (bind_param (ub_id b))
             (bind_param (ub_name b)) (bind_param (ub_email b)) (bind_param (ub_role b))
             (bind_param (ub_bio b)) (bind_param (ub_avatar b)) of
        Inl e \<Rightarrow> (server_error e, d)
      | Inr d' \<Rightarrow> (created, d'))"

definition get_bids :: "db \<Rightarrow> string \<Rightarrow> response" where
  "get_bids d pid = json (BidList (select_bids d pid))"

definition post_bids :: "env \<Rightarrow> db \<Rightarrow> bid_body \<Rightarrow> response \<times> db" where
  "post_bids en d b =
     (case insert_bid (foreign_keys en) (now en) d (bind_param (bb_id b))
             (bind_param (bb_project_id b)) (bind_param (bb_seller_id b))
             (bind_param (bb_amount b)) (bind_param (bb_proposal b)) of
        Inl e \<Rightarrow> (server_error e, d)
      | Inr d' \<Rightarrow> (created, d'))"

definition get_milestones :: "db \<Rightarrow> string \<Rightarrow> response" where
  "get_milestones d pid = json (MilestoneList (select_milestones d pid))"

definition post_milestones :: "env \<Rightarrow> db \<Rightarrow> milestone_body \<Rightarrow> response \<times> db" where
  "post_milestones en d b =
     (case insert_milestone (foreign_keys en) d (bind_param (mb_id b))
             (bind_param (mb_project_id b)) (bind_param (mb_title b))
             (bind_param (mb_amount b)) of
        Inl e \<Rightarrow> (server_error e, d)
      | Inr d' \<Rightarrow> (created, d'))"

text \<open>
  The matchmaking handler returns its response and the list of calls it made to
  \<open>getMatchmakingAdvice\<close> (the arguments of each call). A seller's line is the
  template \<open>`${s.name}: ${s.bio}`\<close>, where a NULL bio prints as \<open>null\<close>.
\<close>

definition seller_line :: "user \<Rightarrow> string" where
  "seller_line s = u_name s @ '': '' @ (case u_bio s of None \<Rightarrow> ''null'' | Some t \<Rightarrow> t)"

definition get_matchmaking :: "env \<Rightarrow> db \<Rightarrow> string \<Rightarrow> response \<times> (string \<times> string list) list" where
  "get_matchmaking en d i =
     (let project = select_project d i;
          sellers = select_sellers d
      in case project of
           None \<Rightarrow> (not_found ''Project not found'', [])
         | Some p \<Rightarrow>
             (case getMatchmakingAdvice en (p_description p) (map seller_line sellers) of
                Inl e \<Rightarrow> (server_error e, [(p_description p, map seller_line sellers)])
              | Inr advice \<Rightarrow>
                  (json (Advice advice), [(p_description p, map seller_line sellers)])))"

text \<open>The router: response, store afterwards, calls made to the text gateway.\<close>

fun handle :: "env \<Rightarrow> db \<Rightarrow> request \<Rightarrow> response \<times> db \<times> (string \<times> string list) list" where
  "handle en d GET_projects = (get_projects d, d, [])"
| "handle en d (POST_projects b) = (fst (post_projects en d b), snd (post_projects en d b), [])"
| "handle en d (GET_user i) = (get_user d i, d, [])"
| "handle en d (POST_users b) = (fst (post_users en d b), snd (post_users en d b), [])"
| "handle en d (GET_bids i) = (get_bids d i, d, [])"
| "handle en d (POST_bids b) = (fst (post_bids en d b), snd (post_bids en d b), [])"
| "handle en d (GET_milestones i) = (get_milestones d i, d, [])"
| "handle en d (POST_milestones b) =
     (fst (post_milestones en d b), snd (post_milestones en d b), [])"
| "handle en d (GET_matchmaking i) =
     (fst (get_matchmaking en d i), d, snd (get_matchmaking en d i))"

text \<open>The write endpoints are the four POST routes.\<close>

fun is_write :: "request \<Rightarrow> bool" where
  "is_write (POST_projects b) = True"
| "is_write (POST_users b) = True"
| "is_write (POST_bids b) = True"
| "is_write (POST_milestones b) = True"
| "is_write req = False"

subsection \<open>Chat relay\<close>

text \<open>
  A connection is a socket with the rooms it is in; Socket.IO puts every socket in the
  room named by its own id, and \<open>socket.join\<close> adds a room once. The handler of
  \<open>send_message\<close> leaves a trace of effects in the order it performs them: the insert
  into the store, then one \<open>receive_message\<close> emission per delivery.
\<close>

record conn =
  socket_id :: string
  rooms :: "string list"

record message_data =
  md_sender_id :: "string js"
  md_receiver_id :: "string js"
  md_content :: "string js"

datatype effect =
    Persist message
  | Emit string message_data

definition on_connection :: "conn list \<Rightarrow> string \<Rightarrow> conn list" where
  "on_connection cs s = cs @ [\<lparr> socket_id = s, rooms = [s] \<rparr>]"

definition on_join :: "conn list \<Rightarrow> string \<Rightarrow> string \<Rightarrow> conn list" where
  "on_join cs s userId =
     map (\<lambda>c. if socket_id c = s then c\<lparr>rooms := List.insert userId (rooms c)\<rparr> else c) cs"

definition on_disconnect :: "conn list \<Rightarrow> string \<Rightarrow> conn list" where
  "on_disconnect cs s = filter (\<lambda>c. socket_id c \<noteq> s) cs"

text \<open>\<open>io.to(room).emit("receive_message", data)\<close>: one emission to each socket in the room.\<close>

definition io_to_emit :: "conn list \<Rightarrow> string js \<Rightarrow> message_data \<Rightarrow> effect list" where
  "io_to_emit cs room data =
     map (\<lambda>c. Emit (socket_id c) data)
       (filter (\<lambda>c. bind_param room \<in> set (map Some (rooms c))) cs)"

text \<open>
  The \<open>send_message\<close> handler on socket \<open>s\<close>. The insert is synchronous and throws on
  failure, in which case the handler ends there (\<open>Some e\<close>) with nothing emitted.
\<close>

definition on_send_message ::
  "nat \<Rightarrow> db \<Rightarrow> conn list \<Rightarrow> string \<Rightarrow> message_data \<Rightarrow> error option \<times> db \<times> effect list" where
  "on_send_message t d cs s data =
     (case insert_message t d (bind_param (md_sender_id data))
             (bind_param (md_receiver_id data)) (bind_param (md_content data)) of
        Inl e \<Rightarrow> (Some e, d, [])
      | Inr (row, d') \<Rightarrow>
          (None, d', Persist row # io_to_emit cs (md_receiver_id data) data @ [Emit s data]))"

text \<open>The number of \<open>receive_message\<close> events that socket \<open>s\<close> gets in a trace.\<close>

definition deliveries :: "effect list \<Rightarrow> string \<Rightarrow> nat" where
  "deliveries tr s = length (filter (\<lambda>ev. case ev of Emit s' _ \<Rightarrow> s' = s | Persist _ \<Rightarrow> False) tr)"

definition in_room :: "conn list \<Rightarrow> string \<Rightarrow> string \<Rightarrow> bool" where
  "in_room cs s room = list_ex (\<lambda>c. socket_id c = s \<and> room \<in> set (rooms c)) cs"

subsection \<open>Integrity of the store\<close>

text \<open>Keys are unique among the rows that have one; emails are unique.\<close>

definition unique_keys :: "'a option list \<Rightarrow> bool" where
  "unique_keys ks = distinct (filter (\<lambda>k. k \<noteq> None) ks)"

definition wf_db :: "db \<Rightarrow> bool" where
  "wf_db d =
     (unique_keys (map u_id (users d)) \<and> distinct (map u_email (users d)) \<and>
      unique_keys (map p_id (projects d)) \<and> unique_keys (map b_id (bids d)) \<and>
      unique_keys (map ms_id (milestones d)))"

text \<open>Referential integrity: every foreign key names a stored row.\<close>

definition fk_ok :: "db \<Rightarrow> bool" where
  "fk_ok d =
     (list_all (\<lambda>p. Some (p_buyer_id p) \<in> set (map u_id (users d))) (projects d) \<and>
      list_all (\<lambda>b. Some (b_project_id b) \<in> set (map p_id (projects d)) \<and>
                    Some (b_seller_id b) \<in> set (map u_id (users d))) (bids d) \<and>
      list_all (\<lambda>m. Some (ms_project_id m) \<in> set (map p_id (projects d))) (milestones d))"

subsection \<open>Example environment and requests\<close>

text \<open>
  A concrete environment (parameterised by the foreign-key setting) and a create-project
  body for buyer_1 (parameterised by the minimum budget), used to run the handlers on
  the seeded store.
\<close>

definition env0 :: "bool \<Rightarrow> env" where
  "env0 fk = \<lparr> foreign_keys = fk, now = 1, uuid1 = ''m1'', uuid2 = ''m2'', uuid3 = ''m3'',
      getMatchmakingAdvice = (\<lambda>_ _. Inr ''advice'') \<rparr>"

definition body0 :: "int js \<Rightarrow> project_body" where
  "body0 b = \<lparr> pb_id = Val ''p3'', pb_buyer_id = Val ''buyer_1'', pb_title = Val ''X'',
     pb_description = Val ''D'', pb_budget_min = b, pb_budget_max = Val 2000 \<rparr>"

definition user0 :: "string \<Rightarrow> string \<Rightarrow> string \<Rightarrow> string \<Rightarrow> user_body" where
  "user0 i n e r = \<lparr> ub_id = Val i, ub_name = Val n, ub_email = Val e, ub_role = Val r,
     ub_bio = Null, ub_avatar = Null \<rparr>"

text \<open>
  Two sockets: s1 has joined the room of alice, s2 the room of bob. A chat message from
  \<open>a\<close> to \<open>b\<close>.
\<close>

definition conns0 :: "conn list" where
  "conns0 = on_join (on_join (on_connection (on_connection [] ''s1'') ''s2'') ''s1'' ''alice'')
              ''s2'' ''bob''"

definition data0 :: "string \<Rightarrow> string \<Rightarrow> message_data" where
  "data0 a b = \<lparr> md_sender_id = Val a, md_receiver_id = Val b, md_content = Val ''hi'' \<rparr>"

section \<open>Properties\<close>

subsection \<open>Evaluation and arithmetic\<close>

text \<open>
  On integers the two milestone shares are integer divisions: \<open>floor(0.2 * n)\<close> is
  \<open>n div 5\<close> and \<open>floor(0.4 * n)\<close> is \<open>2 * n div 5\<close>, rounding towards minus
  infinity.
\<close>

lemma floor_fifth: "\<lfloor>real_of_int n * 0.2\<rfloor> = n div 5"
proof -
  have "real_of_int n * 0.2 = real_of_int n / real_of_int 5" by simp
  then show ?thesis by (simp only: floor_divide_of_int_eq)
qed

lemmas stmt_defs = insert_project_def insert_milestone_def insert_bid_def insert_message_def
  insert_or_replace_user_def milestone_row_def key_taken_def replaces_def referenced_def next_message_id_def
lemmas resp_defs = json_def created_def server_error_def not_found_def


lemma floor_two_fifths: "\<lfloor>real_of_int n * 0.4\<rfloor> = (2 * n) div 5"
proof -
  have "real_of_int n * 0.4 = real_of_int (2 * n) / real_of_int 5" by simp
  then show ?thesis by (simp only: floor_divide_of_int_eq)
qed

lemma math_floor_times_Val:
  "math_floor_times (Val n) 0.2 = Some (n div 5)"
  "math_floor_times (Val n) 0.4 = Some ((2 * n) div 5)"
  using floor_fifth [of n] floor_two_fifths [of n] by (simp_all add: math_floor_times_def)

lemma math_floor_times_norm:
  "math_floor_times (Val n) (1 / 5) = Some (n div 5)"
  "math_floor_times (Val n) (2 / 5) = Some ((2 * n) div 5)"
  using math_floor_times_Val [of n] by simp_all

lemma math_floor_times_other:
  "math_floor_times Undefined c = None"
  "math_floor_times Null c = Some 0"
  by (simp_all add: math_floor_times_def)

lemma insert_milestone_Inr:
  assumes "insert_milestone fk d i pid t amt = Inr d'"
  shows "pid \<noteq> None" "t \<noteq> None" "amt \<noteq> None"
    "\<not> key_taken i (map ms_id (milestones d))"
    "fk \<Longrightarrow> pid \<in> set (map p_id (projects d))"
    "d' = d\<lparr>milestones := milestones d @ [milestone_row i pid t amt]\<rparr>"
  using assms by (simp_all add: insert_milestone_def split: if_splits)

lemma insert_milestones_None:
  "insert_milestones fk d ms = (None, d') \<Longrightarrow>
     d' = d\<lparr>milestones := milestones d @ map (\<lambda>(i, pid, t, amt). milestone_row i pid t amt) ms\<rparr> \<and>
     list_all (\<lambda>(i, pid, t, amt). pid \<noteq> None \<and> amt \<noteq> None) ms"
proof (induction ms arbitrary: d)
  case Nil
  then show ?case by simp
next
  case (Cons m ms)
  obtain i pid t amt where m: "m = (i, pid, t, amt)" by (cases m) auto
  from Cons.prems m obtain d1 where
    one: "insert_milestone fk d i pid t amt = Inr d1" and
    rest: "insert_milestones fk d1 ms = (None, d')"
    by (simp split: sum.splits)
  note h = insert_milestone_Inr [OF one]
  from Cons.IH [OF rest] h(1,3,6) m show ?case by simp
qed

lemma post_projects_created:
  assumes "post_projects en d b = (r, d')" and "status r = 201"
  shows "\<exists>d1. insert_project (foreign_keys en) (now en) d (bind_param (pb_id b))
             (bind_param (pb_buyer_id b)) (bind_param (pb_title b))
             (bind_param (pb_description b)) (bind_param (pb_budget_min b))
             (bind_param (pb_budget_max b)) = Inr d1 \<and>
           insert_milestones (foreign_keys en) d1 (auto_milestones en b) = (None, d')"
  using assms
  by (auto simp: post_projects_def resp_defs split: sum.splits prod.splits option.splits)


lemma unique_keys_append: "unique_keys (ks @ [k]) = (unique_keys ks \<and> \<not> key_taken k ks)"
  by (auto simp: unique_keys_def key_taken_def)

lemma unique_keys_filter: "unique_keys (map f xs) \<Longrightarrow> unique_keys (map f (filter P xs))"
  by (induction xs) (force simp: unique_keys_def)+

lemma insert_project_Inr:
  assumes "insert_project fk t d i buyer ti de bmin bmax = Inr d'"
  shows "buyer \<noteq> None" "ti \<noteq> None" "de \<noteq> None"
    "\<not> key_taken i (map p_id (projects d))"
    "fk \<Longrightarrow> buyer \<in> set (map u_id (users d))"
    "d' = d\<lparr>projects := projects d @
             [\<lparr> p_id = i, p_buyer_id = the buyer, p_title = the ti, p_description = the de,
                p_budget_min = bmin, p_budget_max = bmax, p_status = ''open'',
                p_created_at = t \<rparr>]\<rparr>"
  using assms by (simp_all add: insert_project_def split: if_splits)

lemma insert_bid_Inr:
  assumes "insert_bid fk t d i pid sid amt prop = Inr d'"
  shows "pid \<noteq> None" "sid \<noteq> None" "amt \<noteq> None" "prop \<noteq> None"
    "\<not> key_taken i (map b_id (bids d))"
    "fk \<Longrightarrow> pid \<in> set (map p_id (projects d)) \<and> sid \<in> set (map u_id (users d))"
    "d' = d\<lparr>bids := bids d @
             [\<lparr> b_id = i, b_project_id = the pid, b_seller_id = the sid, b_amount = the amt,
                b_proposal = the prop, b_status = ''pending'', b_created_at = t \<rparr>]\<rparr>"
  using assms by (simp_all add: insert_bid_def split: if_splits)

lemma insert_or_replace_user_Inr:
  assumes "insert_or_replace_user fk d i n e r bio av = Inr d'"
  shows "n \<noteq> None" "e \<noteq> None" "r = Some ''buyer'' \<or> r = Some ''seller''"
    "fk \<Longrightarrow> \<not> list_ex (\<lambda>u. replaces i (the e) u \<and> u_id u \<noteq> i \<and> referenced d u) (users d)"
    "d' = d\<lparr>users := filter (\<lambda>u. \<not> replaces i (the e) u) (users d) @
             [\<lparr> u_id = i, u_name = the n, u_email = the e, u_role = the r,
                u_bio = bio, u_avatar = av \<rparr>]\<rparr>"
  using assms by (simp_all add: insert_or_replace_user_def split: if_splits)

lemma insert_message_Inr:
  assumes "insert_message t d s r c = Inr (row, d')"
  shows "s \<noteq> None" "r \<noteq> None" "c \<noteq> None"
    "row = \<lparr> m_id = next_message_id d, m_sender_id = the s, m_receiver_id = the r,
                         m_content = the c, m_timestamp = t \<rparr>"
    "d' = d\<lparr>messages := messages d @ [row]\<rparr>"
  using assms by (auto simp: insert_message_def Let_def split: if_splits)

lemma wf_db_insert_project:
  assumes "insert_project fk t d i buyer ti de bmin bmax = Inr d'" and "wf_db d"
  shows "wf_db d'"
  using assms(2) insert_project_Inr(4) [OF assms(1)]
  by (simp add: insert_project_Inr(6) [OF assms(1)] wf_db_def unique_keys_append)

lemma wf_db_insert_milestone:
  assumes "insert_milestone fk d i pid t amt = Inr d'" and "wf_db d"
  shows "wf_db d'"
  using assms(2) insert_milestone_Inr(4) [OF assms(1)]
  by (simp add: insert_milestone_Inr(6) [OF assms(1)] wf_db_def unique_keys_append milestone_row_def)

lemma wf_db_insert_bid:
  assumes "insert_bid fk t d i pid sid amt prop = Inr d'" and "wf_db d"
  shows "wf_db d'"
  using assms(2) insert_bid_Inr(5) [OF assms(1)]
  by (simp add: insert_bid_Inr(7) [OF assms(1)] wf_db_def unique_keys_append)

lemma wf_db_insert_message:
  assumes "insert_message t d s r c = Inr (row, d')" and "wf_db d"
  shows "wf_db d'"
  using assms(2) by (simp add: insert_message_Inr(5) [OF assms(1)] wf_db_def)

lemma not_taken_after_replace:
  "\<not> key_taken i (map u_id (filter (\<lambda>u. \<not> replaces i e u) us))"
  by (auto simp: key_taken_def replaces_def)

lemma email_free_after_replace:
  "e \<notin> set (map u_email (filter (\<lambda>u. \<not> replaces i e u) us))"
  by (auto simp: replaces_def)

lemma wf_db_insert_or_replace_user:
  assumes "insert_or_replace_user fk d i n e r bio av = Inr d'" and "wf_db d"
  shows "wf_db d'"
  using assms(2) not_taken_after_replace [of i "the e" "users d"]
    email_free_after_replace [of "the e" i "users d"]
  by (simp add: insert_or_replace_user_Inr(5) [OF assms(1)] wf_db_def unique_keys_append
      unique_keys_filter distinct_map_filter)

lemma insert_milestones_result:
  "insert_milestones fk d ms = (res, d') \<Longrightarrow> wf_db d \<Longrightarrow> wf_db d'"
proof (induction ms arbitrary: d)
  case Nil
  then show ?case by simp
next
  case (Cons m ms)
  obtain i pid t amt where m: "m = (i, pid, t, amt)" by (cases m) auto
  show ?case
  proof (cases "insert_milestone fk d i pid t amt")
    case (Inl e)
    with Cons.prems m show ?thesis by simp
  next
    case (Inr d1)
    with Cons.prems m have "insert_milestones fk d1 ms = (res, d')" by simp
    from Cons.IH [OF this wf_db_insert_milestone [OF Inr Cons.prems(2)]] show ?thesis .
  qed
qed

lemma fk_ok_no_milestones:
  assumes "fk_ok d" and "Some pid \<notin> set (map p_id (projects d))"
  shows "select_milestones d pid = []"
proof -
  from assms(1) have "list_all (\<lambda>m. Some (ms_project_id m) \<in> set (map p_id (projects d))) (milestones d)"
    by (simp add: fk_ok_def)
  with assms(2) have "list_all (\<lambda>m. ms_project_id m \<noteq> pid) (milestones d)"
    by (auto simp: list_all_iff)
  then show ?thesis
    by (auto simp: select_milestones_def list_all_iff filter_empty_conv)
qed

subsection \<open>Creating a project\<close>




text \<open>
  Claim C9. The create-project operation is not atomic. On the seeded store, a request
  without budget_min inserts the project, then fails on the first milestone (its amount
  is NaN, bound as NULL, against NOT NULL): the response is the 500 branch and the
  store keeps the project with no milestone. A request whose third identifier repeats
  the first fails on the third milestone and leaves the project with two.
\<close>

theorem create_project_not_atomic:
  "Some ''p3'' \<notin> set (map p_id (projects (seed_db 0))) \<and>
   fst (post_projects (env0 True) (seed_db 0) (body0 Undefined))
     = server_error (NotNullFailed ''milestones.amount'') \<and>
   status (fst (post_projects (env0 True) (seed_db 0) (body0 Undefined))) = 500 \<and>
   Some ''p3'' \<in> set (map p_id (projects (snd (post_projects (env0 True) (seed_db 0) (body0 Undefined))))) \<and>
   select_milestones (snd (post_projects (env0 True) (seed_db 0) (body0 Undefined))) ''p3'' = [] \<and>
   fst (post_projects ((env0 True)\<lparr>uuid3 := ''m1''\<rparr>) (seed_db 0) (body0 (Val 1000)))
     = server_error (UniqueFailed ''milestones.id'') \<and>
   Some ''p3'' \<in> set (map p_id (projects (snd (post_projects ((env0 True)\<lparr>uuid3 := ''m1''\<rparr>) (seed_db 0) (body0 (Val 1000)))))) \<and>
   length (select_milestones (snd (post_projects ((env0 True)\<lparr>uuid3 := ''m1''\<rparr>) (seed_db 0) (body0 (Val 1000)))) ''p3'') = 2"
  by (simp add: post_projects_def auto_milestones_def math_floor_times_norm math_floor_times_other
      stmt_defs resp_defs env0_def body0_def seed_db_def select_milestones_def)

subsection \<open>Status codes of the HTTP API\<close>

lemma select_project_None: "select_project d i = None \<longleftrightarrow> Some i \<notin> set (map p_id (projects d))"
  by (force simp: select_project_def find_None_iff)

lemma select_user_None: "select_user d i = None \<longleftrightarrow> Some i \<notin> set (map u_id (users d))"
  by (force simp: select_user_def find_None_iff)

lemma post_projects_response:
  "fst (post_projects en d b) = created \<or> (\<exists>e. fst (post_projects en d b) = server_error e)"
  by (auto simp: post_projects_def split: sum.splits prod.splits option.splits)

lemma post_users_response:
  "fst (post_users en d b) = created \<or> (\<exists>e. fst (post_users en d b) = server_error e)"
  by (auto simp: post_users_def split: sum.splits)

lemma post_bids_response:
  "fst (post_bids en d b) = created \<or> (\<exists>e. fst (post_bids en d b) = server_error e)"
  by (auto simp: post_bids_def split: sum.splits)

lemma post_milestones_response:
  "fst (post_milestones en d b) = created \<or> (\<exists>e. fst (post_milestones en d b) = server_error e)"
  by (auto simp: post_milestones_def split: sum.splits)

lemma write_response:
  "is_write req \<Longrightarrow>
     fst (handle en d req) = created \<or> (\<exists>e. fst (handle en d req) = server_error e)"
  using post_projects_response post_users_response post_bids_response post_milestones_response
  by (cases req) simp_all

lemma matchmaking_status:
  "status (fst (get_matchmaking en d i)) = 404 \<longleftrightarrow> select_project d i = None"
  by (simp add: get_matchmaking_def resp_defs Let_def split: option.splits sum.splits)


lemma get_user_status:
  "status (get_user d i) = (if select_user d i = None then 404 else 200)"
  by (simp add: get_user_def resp_defs split: option.splits)


lemma fk_ok_no_bids:
  assumes "fk_ok d" and "Some pid \<notin> set (map p_id (projects d))"
  shows "select_bids d pid = []"
proof -
  from assms(1) have "list_all (\<lambda>b. Some (b_project_id b) \<in> set (map p_id (projects d))) (bids d)"
    by (simp add: fk_ok_def list_all_iff)
  with assms(2) have "filter (\<lambda>b. b_project_id b = pid) (bids d) = []"
    by (auto simp: list_all_iff filter_empty_conv)
  then show ?thesis by (simp add: select_bids_def)
qed

text \<open>
  Claim C6. A matchmaking request for a project id that is not in the store is
  answered with 404 (\<open>{ error: "Project not found" }\<close>), the store is unchanged and
  \<open>getMatchmakingAdvice\<close> is not called: the list of calls is empty.
\<close>

theorem matchmaking_unknown_project:
  assumes "Some i \<notin> set (map p_id (projects d))"
  shows "handle en d (GET_matchmaking i) = (not_found ''Project not found'', d, []) \<and>
         status (fst (handle en d (GET_matchmaking i))) = 404 \<and>
         snd (snd (handle en d (GET_matchmaking i))) = []"
  using assms select_project_None [of d i]
  by (simp add: get_matchmaking_def not_found_def)

text \<open>
  Witness for C6 on the seeded store, which has no project p9.
\<close>

theorem matchmaking_unknown_project_witness:
  "Some ''p9'' \<notin> set (map p_id (projects (seed_db 0))) \<and>
   status (fst (handle (env0 True) (seed_db 0) (GET_matchmaking ''p9''))) = 404 \<and>
   snd (snd (handle (env0 True) (seed_db 0) (GET_matchmaking ''p9''))) = []"
proof -
  have h: "Some ''p9'' \<notin> set (map p_id (projects (seed_db 0)))"
    by (simp add: seed_db_def)
  from matchmaking_unknown_project [OF h, of "env0 True"] h show ?thesis
    by (simp add: not_found_def)
qed

text \<open>
  For comparison: when the project exists the gateway is called exactly once, with the
  project's description and the seller lines, and the response is not 404.
\<close>

lemma matchmaking_known_project:
  assumes "select_project d i = Some p"
  shows "snd (snd (handle en d (GET_matchmaking i))) =
           [(p_description p, map seller_line (select_sellers d))] \<and>
         status (fst (handle en d (GET_matchmaking i))) \<noteq> 404"
  using assms
  by (simp add: get_matchmaking_def resp_defs Let_def split: sum.splits)

text \<open>
  Claim C5, as amended. Exactly two routes answer 404, each for an id that is not in
  the store: the user lookup and the matchmaking lookup. No other request is answered
  with 404; on a store with referential integrity the bids and the milestones of an
  unknown project id are the empty list, with status 200.
\<close>

theorem not_found_responses:
  "(status (fst (handle en d req)) = 404 \<longleftrightarrow>
      (\<exists>i. req = GET_user i \<and> Some i \<notin> set (map u_id (users d))) \<or>
      (\<exists>i. req = GET_matchmaking i \<and> Some i \<notin> set (map p_id (projects d)))) \<and>
   (fk_ok d \<and> Some i \<notin> set (map p_id (projects d)) \<longrightarrow>
      handle en d (GET_bids i) = (\<lparr> status = 200, body = BidList [] \<rparr>, d, []) \<and>
      handle en d (GET_milestones i) = (\<lparr> status = 200, body = MilestoneList [] \<rparr>, d, []))"
proof -
  have a: "status (fst (handle en d req)) = 404 \<longleftrightarrow>
      (\<exists>i. req = GET_user i \<and> Some i \<notin> set (map u_id (users d))) \<or>
      (\<exists>i. req = GET_matchmaking i \<and> Some i \<notin> set (map p_id (projects d)))"
  proof (cases "is_write req")
    case True
    from write_response [OF this, of en d] have "status (fst (handle en d req)) \<noteq> 404"
      by (auto simp: resp_defs)
    with True show ?thesis by auto
  next
    case False
    then show ?thesis
      by (cases req)
        (simp_all add: get_user_status matchmaking_status select_user_None select_project_None
          get_projects_def get_bids_def get_milestones_def json_def)
  qed
  have b: "fk_ok d \<Longrightarrow> Some i \<notin> set (map p_id (projects d)) \<Longrightarrow>
      handle en d (GET_bids i) = (\<lparr> status = 200, body = BidList [] \<rparr>, d, []) \<and>
      handle en d (GET_milestones i) = (\<lparr> status = 200, body = MilestoneList [] \<rparr>, d, [])"
    by (simp add: get_bids_def get_milestones_def json_def fk_ok_no_bids fk_ok_no_milestones)
  from a b show ?thesis by blast
qed

text \<open>
  Witness for C5 on the seeded store.
\<close>

theorem not_found_responses_witness:
  "status (fst (handle (env0 True) (seed_db 0) (GET_matchmaking ''p9''))) = 404 \<and>
   status (fst (handle (env0 True) (seed_db 0) (GET_user ''u9''))) = 404 \<and>
   status (fst (handle (env0 True) (seed_db 0) (GET_user ''buyer_1''))) \<noteq> 404 \<and>
   handle (env0 True) (seed_db 0) (GET_bids ''p9'')
     = (\<lparr> status = 200, body = BidList [] \<rparr>, seed_db 0, []) \<and>
   handle (env0 True) (seed_db 0) (GET_milestones ''p9'')
     = (\<lparr> status = 200, body = MilestoneList [] \<rparr>, seed_db 0, [])"
proof -
  have ok: "fk_ok (seed_db 0)" by (simp add: fk_ok_def seed_db_def)
  have p: "Some ''p9'' \<notin> set (map p_id (projects (seed_db 0)))" by (simp add: seed_db_def)
  have u: "Some ''u9'' \<notin> set (map u_id (users (seed_db 0)))" by (simp add: seed_db_def)
  have v: "Some ''buyer_1'' \<in> set (map u_id (users (seed_db 0)))" by (simp add: seed_db_def)
  show ?thesis
    using not_found_responses [of "env0 True" "seed_db 0" "GET_matchmaking ''p9''" "''p9''"]
      not_found_responses [of "env0 True" "seed_db 0" "GET_user ''u9''" "''p9''"]
      not_found_responses [of "env0 True" "seed_db 0" "GET_user ''buyer_1''" "''p9''"]
      ok p u v
    by simp
qed

text \<open>
  Counterexample to C5 as stated (only the matchmaking lookup returns 404): the user
  lookup for an id that is not stored answers 404 with \<open>{ error: "User not found" }\<close>.
\<close>

theorem get_user_unknown_id_counterexample:
  "Some ''u9'' \<notin> set (map u_id (users (seed_db 0))) \<and>
   handle (env0 True) (seed_db 0) (GET_user ''u9'')
     = (\<lparr> status = 404, body = ErrorText ''User not found'' \<rparr>, seed_db 0, [])"
  by (simp add: get_user_def select_user_def not_found_def seed_db_def)

subsection \<open>Integrity is preserved by every operation\<close>

lemma wf_db_post_projects: "wf_db d \<Longrightarrow> wf_db (snd (post_projects en d b))"
proof -
  assume wf: "wf_db d"
  show ?thesis
  proof (cases "insert_project (foreign_keys en) (now en) d (bind_param (pb_id b))
             (bind_param (pb_buyer_id b)) (bind_param (pb_title b))
             (bind_param (pb_description b)) (bind_param (pb_budget_min b))
             (bind_param (pb_budget_max b))")
    case (Inl e)
    with wf show ?thesis by (simp add: post_projects_def)
  next
    case (Inr d1)
    obtain res d2 where im: "insert_milestones (foreign_keys en) d1 (auto_milestones en b) = (res, d2)"
      by (cases "insert_milestones (foreign_keys en) d1 (auto_milestones en b)") auto
    from insert_milestones_result [OF im wf_db_insert_project [OF Inr wf]] have "wf_db d2" .
    with Inr im show ?thesis by (simp add: post_projects_def split: option.splits)
  qed
qed

lemma wf_db_post_users: "wf_db d \<Longrightarrow> wf_db (snd (post_users en d b))"
  using wf_db_insert_or_replace_user
  by (auto simp: post_users_def split: sum.splits)

lemma wf_db_post_bids: "wf_db d \<Longrightarrow> wf_db (snd (post_bids en d b))"
  using wf_db_insert_bid
  by (auto simp: post_bids_def split: sum.splits)

lemma wf_db_post_milestones: "wf_db d \<Longrightarrow> wf_db (snd (post_milestones en d b))"
  using wf_db_insert_milestone
  by (auto simp: post_milestones_def split: sum.splits)

text \<open>
  Every request leaves the keys and the emails unique.
\<close>

lemma wf_db_handle: "wf_db d \<Longrightarrow> wf_db (fst (snd (handle en d req)))"
  by (cases req)
    (simp_all add: wf_db_post_projects wf_db_post_users wf_db_post_bids wf_db_post_milestones)

lemma wf_db_on_send_message:
  "wf_db d \<Longrightarrow> wf_db (fst (snd (on_send_message t d cs s data)))"
  using wf_db_insert_message
  by (auto simp: on_send_message_def split: sum.splits)

lemma wf_db_seed: "wf_db (seed_db t0)"
  by (simp add: wf_db_def seed_db_def unique_keys_def)

lemma fk_ok_seed: "fk_ok (seed_db t0)"
  by (simp add: fk_ok_def seed_db_def)

lemma fk_ok_insert_project:
  assumes "insert_project True t d i buyer ti de bmin bmax = Inr d'" and "fk_ok d"
  shows "fk_ok d'"
proof -
  note h = insert_project_Inr [OF assms(1)]
  from h(1) obtain bu where bu: "buyer = Some bu" by auto
  from h(5) bu have "Some bu \<in> set (map u_id (users d))" by simp
  with assms(2) show ?thesis
    by (auto simp: h(6) fk_ok_def bu list_all_iff)
qed

lemma fk_ok_insert_milestone:
  assumes "insert_milestone True d i pid t amt = Inr d'" and "fk_ok d"
  shows "fk_ok d'"
proof -
  note h = insert_milestone_Inr [OF assms(1)]
  from h(1) obtain p where p: "pid = Some p" by auto
  from h(5) p have "Some p \<in> set (map p_id (projects d))" by simp
  with assms(2) show ?thesis
    by (auto simp: h(6) fk_ok_def p list_all_iff milestone_row_def)
qed

lemma fk_ok_insert_bid:
  assumes "insert_bid True t d i pid sid amt prop = Inr d'" and "fk_ok d"
  shows "fk_ok d'"
proof -
  note h = insert_bid_Inr [OF assms(1)]
  from h(1,2) obtain p s where p: "pid = Some p" "sid = Some s" by auto
  from h(6) p have "Some p \<in> set (map p_id (projects d))" "Some s \<in> set (map u_id (users d))"
    by simp_all
  with assms(2) show ?thesis
    by (auto simp: h(7) fk_ok_def p list_all_iff)
qed

lemma replaced_key_kept:
  assumes nb: "\<not> list_ex (\<lambda>u. replaces i e u \<and> u_id u \<noteq> i \<and> referenced d u) (users d)"
    and k: "Some k \<in> set (map u_id (users d))"
    and r: "Some k \<in> set (map (\<lambda>p. Some (p_buyer_id p)) (projects d)) \<or>
            Some k \<in> set (map (\<lambda>b. Some (b_seller_id b)) (bids d))"
  shows "Some k \<in> set (map u_id (filter (\<lambda>u. \<not> replaces i e u) (users d))) \<or> Some k = i"
proof -
  from k obtain u where u: "u \<in> set (users d)" "u_id u = Some k" by auto
  from r u(2) have ref: "referenced d u" by (simp add: referenced_def)
  show ?thesis
  proof (cases "replaces i e u")
    case False
    with u show ?thesis by force
  next
    case True
    with nb u(1) ref have "u_id u = i" by (auto simp: list_ex_iff)
    with u(2) show ?thesis by simp
  qed
qed

lemma fk_ok_insert_or_replace_user:
  assumes "insert_or_replace_user True d i n e r bio av = Inr d'" and "fk_ok d"
  shows "fk_ok d'"
proof -
  note h = insert_or_replace_user_Inr [OF assms(1)]
  from h(4) have nb: "\<not> list_ex (\<lambda>u. replaces i (the e) u \<and> u_id u \<noteq> i \<and> referenced d u) (users d)"
    by simp
  have keep: "Some k \<in> set (map u_id (users d')) "
    if "Some k \<in> set (map u_id (users d))"
      and "Some k \<in> set (map (\<lambda>p. Some (p_buyer_id p)) (projects d)) \<or>
           Some k \<in> set (map (\<lambda>b. Some (b_seller_id b)) (bids d))" for k
    using replaced_key_kept [OF nb that] by (auto simp: h(5))
  have pr: "projects d' = projects d" "bids d' = bids d" "milestones d' = milestones d"
    by (simp_all add: h(5))
  from assms(2) have
    a: "\<And>p. p \<in> set (projects d) \<Longrightarrow> Some (p_buyer_id p) \<in> set (map u_id (users d))" and
    b: "\<And>b. b \<in> set (bids d) \<Longrightarrow> Some (b_project_id b) \<in> set (map p_id (projects d)) \<and>
                    Some (b_seller_id b) \<in> set (map u_id (users d))" and
    c: "list_all (\<lambda>m. Some (ms_project_id m) \<in> set (map p_id (projects d))) (milestones d)"
    by (simp_all add: fk_ok_def list_all_iff)
  have a': "Some (p_buyer_id p) \<in> set (map u_id (users d'))" if "p \<in> set (projects d)" for p
    using keep [OF a [OF that]] that by force
  have b': "Some (b_seller_id x) \<in> set (map u_id (users d'))" if "x \<in> set (bids d)" for x
    using keep [of "b_seller_id x"] b [OF that] that by force
  from a' b' b c show ?thesis
    unfolding fk_ok_def pr list_all_iff by blast
qed

lemma fk_ok_insert_milestones:
  "insert_milestones True d ms = (res, d') \<Longrightarrow> fk_ok d \<Longrightarrow> fk_ok d'"
proof (induction ms arbitrary: d)
  case Nil
  then show ?case by simp
next
  case (Cons m ms)
  obtain i pid t amt where m: "m = (i, pid, t, amt)" by (cases m) auto
  show ?case
  proof (cases "insert_milestone True d i pid t amt")
    case (Inl e)
    with Cons.prems m show ?thesis by simp
  next
    case (Inr d1)
    with Cons.prems m have "insert_milestones True d1 ms = (res, d')" by simp
    from Cons.IH [OF this fk_ok_insert_milestone [OF Inr Cons.prems(2)]] show ?thesis .
  qed
qed

lemma fk_ok_post_projects:
  assumes "foreign_keys en" and ok: "fk_ok d"
  shows "fk_ok (snd (post_projects en d b))"
proof (cases "insert_project True (now en) d (bind_param (pb_id b))
             (bind_param (pb_buyer_id b)) (bind_param (pb_title b))
             (bind_param (pb_description b)) (bind_param (pb_budget_min b))
             (bind_param (pb_budget_max b))")
  case (Inl e)
  with ok assms(1) show ?thesis by (simp add: post_projects_def)
next
  case (Inr d1)
  obtain res d2 where im: "insert_milestones True d1 (auto_milestones en b) = (res, d2)"
    by (cases "insert_milestones True d1 (auto_milestones en b)") auto
  from fk_ok_insert_milestones [OF im fk_ok_insert_project [OF Inr ok]] have "fk_ok d2" .
  with Inr im assms(1) show ?thesis by (simp add: post_projects_def split: option.splits)
qed

text \<open>
  With foreign keys enforced, every request preserves referential integrity.
\<close>

lemma fk_ok_handle:
  assumes "foreign_keys en" and "fk_ok d"
  shows "fk_ok (fst (snd (handle en d req)))"
proof (cases req)
  case (POST_projects b)
  with fk_ok_post_projects [OF assms] show ?thesis by simp
next
  case (POST_users b)
  with assms fk_ok_insert_or_replace_user show ?thesis
    by (auto simp: post_users_def split: sum.splits)
next
  case (POST_bids b)
  with assms fk_ok_insert_bid show ?thesis
    by (auto simp: post_bids_def split: sum.splits)
next
  case (POST_milestones b)
  with assms fk_ok_insert_milestone show ?thesis
    by (auto simp: post_milestones_def split: sum.splits)
qed (simp_all add: assms)

subsection \<open>Users: insert or replace\<close>


lemma post_users_created:
  assumes "post_users en d b = (r, d')" and "status r = 201"
  shows "insert_or_replace_user (foreign_keys en) d (bind_param (ub_id b))
             (bind_param (ub_name b)) (bind_param (ub_email b)) (bind_param (ub_role b))
             (bind_param (ub_bio b)) (bind_param (ub_avatar b)) = Inr d'"
  using assms by (auto simp: post_users_def resp_defs split: sum.splits)

lemma post_users_failed:
  assumes "post_users en d b = (r, d')" and "status r \<noteq> 201"
  shows "d' = d \<and> (\<exists>e. r = server_error e)"
  using assms by (auto simp: post_users_def resp_defs split: sum.splits)

lemma find_append_None: "find P xs = None \<Longrightarrow> find P (xs @ ys) = find P ys"
  by (induction xs) (auto split: if_splits)

lemma filter_id_after_replace:
  "filter (\<lambda>u. u_id u = Some i) (filter (\<lambda>u. \<not> replaces (Some i) e u) us) = []"
  by (auto simp: filter_empty_conv replaces_def)

lemma filter_email_after_replace:
  "filter (\<lambda>u. u_email u = e) (filter (\<lambda>u. \<not> replaces i e u) us) = []"
  by (auto simp: filter_empty_conv replaces_def)

text \<open>
  Claim C8, as amended. An upsert for id \<open>i\<close> with name \<open>n\<close> that the handler
  answers with 201 leaves exactly one row with id \<open>i\<close>; that row is the one the user
  lookup returns and its name is \<open>n\<close>. When the id was already stored the table has
  not grown: the old row was replaced, not duplicated.
\<close>

theorem upsert_existing_user:
  assumes "post_users en d b = (r, d')" and "status r = 201"
    and "ub_id b = Val i" and "ub_name b = Val n"
  shows "\<exists>row. filter (\<lambda>u. u_id u = Some i) (users d') = [row] \<and>
           select_user d' i = Some row \<and> u_name row = n \<and> u_id row = Some i \<and>
           (Some i \<in> set (map u_id (users d)) \<longrightarrow> length (users d') \<le> length (users d))"
proof -
  note h = insert_or_replace_user_Inr [OF post_users_created [OF assms(1,2)]]
  let ?e = "the (bind_param (ub_email b))"
  let ?row = "\<lparr> u_id = Some i, u_name = n, u_email = ?e, u_role = the (bind_param (ub_role b)),
                u_bio = bind_param (ub_bio b), u_avatar = bind_param (ub_avatar b) \<rparr>"
  have us: "users d' = filter (\<lambda>u. \<not> replaces (Some i) ?e u) (users d) @ [?row]"
    by (simp add: h(5) assms(3,4))
  have one: "filter (\<lambda>u. u_id u = Some i) (users d') = [?row]"
    using filter_id_after_replace [of i ?e "users d"] by (simp add: us)
  have sel: "select_user d' i = Some ?row"
  proof -
    have "find (\<lambda>u. u_id u = Some i) (filter (\<lambda>u. \<not> replaces (Some i) ?e u) (users d)) = None"
      by (auto simp: find_None_iff replaces_def)
    then show ?thesis by (simp add: select_user_def us find_append_None)
  qed
  have len: "length (users d') \<le> length (users d)" if "Some i \<in> set (map u_id (users d))"
  proof -
    from that obtain u where u: "u \<in> set (users d)" "u_id u = Some i" by auto
    then have "\<not> \<not> replaces (Some i) ?e u"
      by (simp add: replaces_def)
    from length_filter_less [of u "users d" "\<lambda>u. \<not> replaces (Some i) ?e u", OF u(1) this]
    show ?thesis by (simp add: us)
  qed
  from one sel len show ?thesis by auto
qed

text \<open>
  Witness for C8: renaming the seeded seller_1.
\<close>

theorem upsert_existing_user_witness:
  "Some ''seller_1'' \<in> set (map u_id (users (seed_db 0))) \<and>
   status (fst (post_users (env0 True) (seed_db 0)
     (user0 ''seller_1'' ''Sarah J.'' ''sarah@hrconsulting.com'' ''seller''))) = 201 \<and>
   map u_name (filter (\<lambda>u. u_id u = Some ''seller_1'')
     (users (snd (post_users (env0 True) (seed_db 0)
        (user0 ''seller_1'' ''Sarah J.'' ''sarah@hrconsulting.com'' ''seller''))))) = [''Sarah J.''] \<and>
   length (users (snd (post_users (env0 True) (seed_db 0)
        (user0 ''seller_1'' ''Sarah J.'' ''sarah@hrconsulting.com'' ''seller'')))) \<le> 2"
proof -
  let ?b = "user0 ''seller_1'' ''Sarah J.'' ''sarah@hrconsulting.com'' ''seller''"
  have ex: "Some ''seller_1'' \<in> set (map u_id (users (seed_db 0)))"
    by (simp add: seed_db_def)
  have st: "status (fst (post_users (env0 True) (seed_db 0) ?b)) = 201"
    by (simp add: post_users_def stmt_defs resp_defs env0_def user0_def seed_db_def)
  have i: "ub_id ?b = Val ''seller_1''" and n: "ub_name ?b = Val ''Sarah J.''"
    by (simp_all add: user0_def)
  from upsert_existing_user [OF surjective_pairing st i n] ex
  obtain row where
    "filter (\<lambda>u. u_id u = Some ''seller_1'') (users (snd (post_users (env0 True) (seed_db 0) ?b))) = [row]"
    "u_name row = ''Sarah J.''"
    "length (users (snd (post_users (env0 True) (seed_db 0) ?b))) \<le> length (users (seed_db 0))"
    by auto
  moreover have "length (users (seed_db 0)) = 2" by (simp add: seed_db_def)
  ultimately show ?thesis using ex st by simp
qed

text \<open>
  Counterexample to C8 as stated (for every upsert of an existing id with another
  name): an upsert of seller_1 whose role fails the CHECK constraint is answered with
  500 and the stored name stays; so is, with foreign keys enforced, an upsert of
  seller_1 that takes the email of buyer_1, whose row is referenced by the seeded
  projects and cannot be replaced.
\<close>

theorem upsert_rejected_counterexample:
  "Some ''seller_1'' \<in> set (map u_id (users (seed_db 0))) \<and>
   fst (post_users (env0 False) (seed_db 0)
     (user0 ''seller_1'' ''Sarah J.'' ''sarah@hrconsulting.com'' ''admin''))
     = \<lparr> status = 500, body = Failure (CheckFailed ''users.role'') \<rparr> \<and>
   map u_name (filter (\<lambda>u. u_id u = Some ''seller_1'')
     (users (snd (post_users (env0 False) (seed_db 0)
        (user0 ''seller_1'' ''Sarah J.'' ''sarah@hrconsulting.com'' ''admin''))))) = [''Sarah Jenkins''] \<and>
   fst (post_users (env0 True) (seed_db 0)
     (user0 ''seller_1'' ''Sarah J.'' ''hr@acme.com'' ''seller''))
     = \<lparr> status = 500, body = Failure ForeignKeyFailed \<rparr> \<and>
   map u_name (filter (\<lambda>u. u_id u = Some ''seller_1'')
     (users (snd (post_users (env0 True) (seed_db 0)
        (user0 ''seller_1'' ''Sarah J.'' ''hr@acme.com'' ''seller''))))) = [''Sarah Jenkins'']"
  by (simp add: post_users_def stmt_defs resp_defs env0_def user0_def seed_db_def)

lemma insert_milestones_users:
  "insert_milestones fk d ms = (res, d') \<Longrightarrow> users d' = users d"
proof (induction ms arbitrary: d)
  case Nil
  then show ?case by simp
next
  case (Cons m ms)
  obtain i pid t amt where m: "m = (i, pid, t, amt)" by (cases m) auto
  show ?case
  proof (cases "insert_milestone fk d i pid t amt")
    case (Inl e)
    with Cons.prems m show ?thesis by simp
  next
    case (Inr d1)
    with Cons.prems m have "insert_milestones fk d1 ms = (res, d')" by simp
    from Cons.IH [OF this] insert_milestone_Inr(6) [OF Inr] show ?thesis by simp
  qed
qed

lemma post_projects_users: "users (snd (post_projects en d b)) = users d"
proof (cases "insert_project (foreign_keys en) (now en) d (bind_param (pb_id b))
             (bind_param (pb_buyer_id b)) (bind_param (pb_title b))
             (bind_param (pb_description b)) (bind_param (pb_budget_min b))
             (bind_param (pb_budget_max b))")
  case (Inl e)
  then show ?thesis by (simp add: post_projects_def)
next
  case (Inr d1)
  obtain res d2 where im: "insert_milestones (foreign_keys en) d1 (auto_milestones en b) = (res, d2)"
    by (cases "insert_milestones (foreign_keys en) d1 (auto_milestones en b)") auto
  from insert_milestones_users [OF im] insert_project_Inr(6) [OF Inr]
  have "users d2 = users d" by simp
  with Inr im show ?thesis by (simp add: post_projects_def split: option.splits)
qed

lemma post_bids_users: "users (snd (post_bids en d b)) = users d"
  by (auto simp: post_bids_def split: sum.splits dest: insert_bid_Inr(7))

lemma post_milestones_users: "users (snd (post_milestones en d b)) = users d"
  by (auto simp: post_milestones_def split: sum.splits dest: insert_milestone_Inr(6))

lemma post_users_emails:
  assumes "distinct (map u_email (users d))"
  shows "distinct (map u_email (users (snd (post_users en d b))))"
proof (cases "insert_or_replace_user (foreign_keys en) d (bind_param (ub_id b))
             (bind_param (ub_name b)) (bind_param (ub_email b)) (bind_param (ub_role b))
             (bind_param (ub_bio b)) (bind_param (ub_avatar b))")
  case (Inl e)
  with assms show ?thesis by (simp add: post_users_def)
next
  case (Inr d')
  from assms email_free_after_replace
         [of "the (bind_param (ub_email b))" "bind_param (ub_id b)" "users d"]
  have "distinct (map u_email (users d'))"
    by (simp add: insert_or_replace_user_Inr(5) [OF Inr] distinct_map_filter)
  with Inr show ?thesis by (simp add: post_users_def)
qed

text \<open>
  No request makes two rows share an email.
\<close>

lemma emails_unique_handle:
  assumes "distinct (map u_email (users d))"
  shows "distinct (map u_email (users (fst (snd (handle en d req)))))"
  using assms
  by (cases req)
    (simp_all add: post_projects_users post_bids_users post_milestones_users post_users_emails)

lemma emails_unique_on_send_message:
  "users (fst (snd (on_send_message t d cs s data))) = users d"
  by (auto simp: on_send_message_def split: sum.splits dest: insert_message_Inr(5))

text \<open>
  Claim C4, as amended. Let the store hold a user \<open>j\<close> with email \<open>e\<close> and another
  id than \<open>i\<close>, and let an upsert for id \<open>i\<close> and email \<open>e\<close> carry a name and a
  role of buyer or seller. If foreign keys are enforced and a row that the upsert would
  replace, with another id than \<open>i\<close>, is referenced by a project or a bid, the
  response is 500 (FOREIGN KEY constraint failed) and the store is unchanged. Otherwise
  the response is 201, the row of \<open>j\<close> is gone and the only row with email \<open>e\<close> is
  the new one. In every case, and for every request of the API, emails stay unique.
\<close>

theorem replace_conflicting_email:
  assumes "j \<in> set (users d)" and "u_email j = e" and "u_id j \<noteq> Some i"
    and "ub_id b = Val i" and "ub_email b = Val e" and "ub_name b = Val n"
    and "ub_role b = Val ro" and "ro = ''buyer'' \<or> ro = ''seller''"
  shows "(if foreign_keys en \<and>
             list_ex (\<lambda>u. replaces (Some i) e u \<and> u_id u \<noteq> Some i \<and> referenced d u) (users d)
          then post_users en d b = (\<lparr> status = 500, body = Failure ForeignKeyFailed \<rparr>, d)
          else fst (post_users en d b) = \<lparr> status = 201, body = Success \<rparr> \<and>
               j \<notin> set (users (snd (post_users en d b))) \<and>
               map u_id (filter (\<lambda>u. u_email u = e) (users (snd (post_users en d b)))) = [Some i]) \<and>
         (distinct (map u_email (users d)) \<longrightarrow>
            distinct (map u_email (users (fst (snd (handle en d req))))))"
proof -
  let ?blocked = "foreign_keys en \<and>
             list_ex (\<lambda>u. replaces (Some i) e u \<and> u_id u \<noteq> Some i \<and> referenced d u) (users d)"
  have a: "post_users en d b = (\<lparr> status = 500, body = Failure ForeignKeyFailed \<rparr>, d)" if "?blocked"
    using that assms(4-8)
    by (auto simp: post_users_def insert_or_replace_user_def resp_defs)
  have b: "fst (post_users en d b) = \<lparr> status = 201, body = Success \<rparr> \<and>
           j \<notin> set (users (snd (post_users en d b))) \<and>
           map u_id (filter (\<lambda>u. u_email u = e) (users (snd (post_users en d b)))) = [Some i]"
    if nb: "\<not> ?blocked"
  proof -
    have rj: "replaces (Some i) e j" using assms(2) by (simp add: replaces_def)
    have ins: "insert_or_replace_user (foreign_keys en) d (Some i) (Some n) (Some e) (Some ro)
                 (bind_param (ub_bio b)) (bind_param (ub_avatar b)) =
               Inr (d\<lparr>users := filter (\<lambda>u. \<not> replaces (Some i) e u) (users d) @
                  [\<lparr> u_id = Some i, u_name = n, u_email = e, u_role = ro,
                     u_bio = bind_param (ub_bio b), u_avatar = bind_param (ub_avatar b) \<rparr>]\<rparr>)"
      using nb assms(8) by (auto simp: insert_or_replace_user_def)
    have pu: "post_users en d b =
               (created, d\<lparr>users := filter (\<lambda>u. \<not> replaces (Some i) e u) (users d) @
                  [\<lparr> u_id = Some i, u_name = n, u_email = e, u_role = ro,
                     u_bio = bind_param (ub_bio b), u_avatar = bind_param (ub_avatar b) \<rparr>]\<rparr>)"
      using ins by (simp add: post_users_def assms(4-7))
    have gone: "j \<notin> set (users (snd (post_users en d b)))"
      using rj assms(3) by (auto simp: pu)
    have only: "map u_id (filter (\<lambda>u. u_email u = e) (users (snd (post_users en d b)))) = [Some i]"
      using filter_email_after_replace [of e "Some i" "users d"] by (simp add: pu)
    from pu gone only show ?thesis by (simp add: created_def)
  qed
  from a b emails_unique_handle [of d en req] show ?thesis by simp
qed

text \<open>
  Witness for C4 on the seeded store: taking the email of seller_1, who is referenced
  nowhere, deletes that row; taking the email of buyer_1, who owns the seeded projects,
  fails under enforced foreign keys.
\<close>

theorem replace_conflicting_email_witness:
  "fst (post_users (env0 True) (seed_db 0) (user0 ''u2'' ''Sam'' ''sarah@hrconsulting.com'' ''seller''))
     = \<lparr> status = 201, body = Success \<rparr> \<and>
   Some ''seller_1'' \<notin> set (map u_id (users (snd (post_users (env0 True) (seed_db 0)
       (user0 ''u2'' ''Sam'' ''sarah@hrconsulting.com'' ''seller''))))) \<and>
   map u_id (filter (\<lambda>u. u_email u = ''sarah@hrconsulting.com'')
     (users (snd (post_users (env0 True) (seed_db 0)
       (user0 ''u2'' ''Sam'' ''sarah@hrconsulting.com'' ''seller''))))) = [Some ''u2''] \<and>
   post_users (env0 True) (seed_db 0) (user0 ''u2'' ''Eve'' ''hr@acme.com'' ''buyer'')
     = (\<lparr> status = 500, body = Failure ForeignKeyFailed \<rparr>, seed_db 0)"
proof -
  let ?j = "\<lparr> u_id = Some ''seller_1'', u_name = ''Sarah Jenkins'',
             u_email = ''sarah@hrconsulting.com'', u_role = ''seller'',
             u_bio = Some ''Senior HR Consultant with 10 years experience in tech recruitment and organizational design.'',
             u_avatar = Some ''https://api.dicebear.com/7.x/avataaars/svg?seed=Sarah'' \<rparr>"
  let ?k = "\<lparr> u_id = Some ''buyer_1'', u_name = ''Acme Corp HR'', u_email = ''hr@acme.com'',
             u_role = ''buyer'',
             u_bio = Some ''Fast-growing tech startup looking for HR expertise.'',
             u_avatar = Some ''https://api.dicebear.com/7.x/avataaars/svg?seed=Acme'' \<rparr>"
  let ?b = "user0 ''u2'' ''Sam'' ''sarah@hrconsulting.com'' ''seller''"
  let ?c = "user0 ''u2'' ''Eve'' ''hr@acme.com'' ''buyer''"
  have j: "?j \<in> set (users (seed_db 0))" and k: "?k \<in> set (users (seed_db 0))"
    by (simp_all add: seed_db_def)
  have free: "\<not> (foreign_keys (env0 True) \<and>
      list_ex (\<lambda>u. replaces (Some ''u2'') ''sarah@hrconsulting.com'' u \<and> u_id u \<noteq> Some ''u2'' \<and>
                   referenced (seed_db 0) u) (users (seed_db 0)))"
    by (simp add: seed_db_def replaces_def referenced_def env0_def)
  have blocked: "foreign_keys (env0 True) \<and>
      list_ex (\<lambda>u. replaces (Some ''u2'') ''hr@acme.com'' u \<and> u_id u \<noteq> Some ''u2'' \<and>
                   referenced (seed_db 0) u) (users (seed_db 0))"
    by (simp add: seed_db_def replaces_def referenced_def env0_def)
  have 1: "fst (post_users (env0 True) (seed_db 0) ?b) = \<lparr> status = 201, body = Success \<rparr> \<and>
           ?j \<notin> set (users (snd (post_users (env0 True) (seed_db 0) ?b))) \<and>
           map u_id (filter (\<lambda>u. u_email u = ''sarah@hrconsulting.com'')
              (users (snd (post_users (env0 True) (seed_db 0) ?b)))) = [Some ''u2'']"
    using replace_conflicting_email [of ?j "seed_db 0" "''sarah@hrconsulting.com''" "''u2''" ?b
        "''Sam''" "''seller''" "env0 True" GET_projects, OF j] free
    by (simp add: user0_def)
  have 2: "post_users (env0 True) (seed_db 0) ?c
             = (\<lparr> status = 500, body = Failure ForeignKeyFailed \<rparr>, seed_db 0)"
    using replace_conflicting_email [of ?k "seed_db 0" "''hr@acme.com''" "''u2''" ?c
        "''Eve''" "''buyer''" "env0 True" GET_projects, OF k] blocked
    by (simp add: user0_def)
  have 3: "Some ''seller_1'' \<notin> set (map u_id (users (snd (post_users (env0 True) (seed_db 0) ?b))))"
    by (simp add: post_users_def stmt_defs resp_defs env0_def user0_def seed_db_def)
  from 1 2 3 show ?thesis by simp
qed

text \<open>
  Counterexample to C4 as stated (the request always succeeds with 201 and the row of
  \<open>j\<close> is deleted): with foreign keys enforced, an upsert for the new id u2 with the
  email of buyer_1 is answered with 500 and buyer_1 stays; whatever the foreign-key
  setting, so is one whose role fails the CHECK constraint.
\<close>

theorem replace_conflicting_email_counterexample:
  "''hr@acme.com'' \<in> set (map u_email (users (seed_db 0))) \<and>
   Some ''u2'' \<notin> set (map u_id (users (seed_db 0))) \<and>
   post_users (env0 True) (seed_db 0) (user0 ''u2'' ''Eve'' ''hr@acme.com'' ''buyer'')
     = (\<lparr> status = 500, body = Failure ForeignKeyFailed \<rparr>, seed_db 0) \<and>
   post_users (env0 False) (seed_db 0) (user0 ''u2'' ''Eve'' ''hr@acme.com'' ''admin'')
     = (\<lparr> status = 500, body = Failure (CheckFailed ''users.role'') \<rparr>, seed_db 0) \<and>
   Some ''buyer_1'' \<in> set (map u_id (users (seed_db 0)))"
  by (simp add: post_users_def stmt_defs resp_defs env0_def user0_def seed_db_def)


lemma post_projects_partial_failure:
  "insert_project (foreign_keys en) (now en) d (bind_param (pb_id b))
      (bind_param (pb_buyer_id b)) (bind_param (pb_title b)) (bind_param (pb_description b))
      (bind_param (pb_budget_min b)) (bind_param (pb_budget_max b)) = Inr d1 \<Longrightarrow>
   insert_milestones (foreign_keys en) d1 (auto_milestones en b) = (Some e, d2) \<Longrightarrow>
   handle en d (POST_projects b) = (\<lparr> status = 500, body = Failure e \<rparr>, d2, [])"
  by (simp add: post_projects_def server_error_def)







subsection \<open>Chat relay\<close>

lemmas relay_defs = on_send_message_def io_to_emit_def on_connection_def on_join_def
  on_disconnect_def deliveries_def in_room_def conns0_def data0_def

lemma on_send_message_cases:
  assumes "on_send_message t d cs s data = (res, d', tr)"
  shows "(\<exists>e. res = Some e \<and> d' = d \<and> tr = [] \<and>
            insert_message t d (bind_param (md_sender_id data))
              (bind_param (md_receiver_id data)) (bind_param (md_content data)) = Inl e) \<or>
         (\<exists>row. res = None \<and>
            insert_message t d (bind_param (md_sender_id data))
              (bind_param (md_receiver_id data)) (bind_param (md_content data)) = Inr (row, d') \<and>
            tr = Persist row # io_to_emit cs (md_receiver_id data) data @ [Emit s data])"
  using assms by (auto simp: on_send_message_def split: sum.splits)

lemma io_to_emit_payload:
  "Emit x p \<in> set (io_to_emit cs room data) \<Longrightarrow> p = data"
  by (auto simp: io_to_emit_def)

lemma bind_param_Some: "bind_param v = Some x \<longleftrightarrow> v = Val x"
  by (cases v) auto

lemma bind_param_not_None: "bind_param v \<noteq> None \<Longrightarrow> v = Val (the (bind_param v))"
  by (cases v) auto

text \<open>
  Claim C10. In the trace of one \<open>send_message\<close> event, the insert into the messages
  table comes before every \<open>receive_message\<close> emission: when the insert fails the
  handler throws, the store is unchanged and nothing is emitted; when it succeeds the
  trace starts with the insert of the row built from the payload, the row is in the
  store, and every emission (to the receiver's room or the echo) stands at a later
  position and carries that payload.
\<close>

theorem persisted_before_emitted:
  assumes "on_send_message t d cs s data = (res, d', tr)"
  shows "(\<forall>e. res = Some e \<longrightarrow> tr = [] \<and> d' = d) \<and>
         (res = None \<longrightarrow>
            (\<exists>row. tr ! 0 = Persist row \<and> messages d' = messages d @ [row] \<and>
               md_sender_id data = Val (m_sender_id row) \<and>
               md_receiver_id data = Val (m_receiver_id row) \<and>
               md_content data = Val (m_content row))) \<and>
         (\<forall>k x p. k < length tr \<and> tr ! k = Emit x p \<longrightarrow>
            p = data \<and> res = None \<and> 0 < k \<and> (\<exists>row. tr ! 0 = Persist row \<and> row \<in> set (messages d')))"
proof -
  from on_send_message_cases [OF assms] show ?thesis
  proof (elim disjE exE conjE)
    fix e
    assume "res = Some e" "d' = d" "tr = []"
    then show ?thesis by simp
  next
    fix row
    assume r: "res = None"
      and ins: "insert_message t d (bind_param (md_sender_id data))
              (bind_param (md_receiver_id data)) (bind_param (md_content data)) = Inr (row, d')"
      and tr: "tr = Persist row # io_to_emit cs (md_receiver_id data) data @ [Emit s data]"
    note h = insert_message_Inr [OF ins]
    have fields: "md_sender_id data = Val (m_sender_id row)"
      "md_receiver_id data = Val (m_receiver_id row)" "md_content data = Val (m_content row)"
      using bind_param_not_None [OF h(1)] bind_param_not_None [OF h(2)]
        bind_param_not_None [OF h(3)] by (simp_all add: h(4))
    have msgs: "messages d' = messages d @ [row]" by (simp add: h(5))
    have emits: "p = data \<and> 0 < k" if "k < length tr" "tr ! k = Emit x p" for k x p
    proof (cases k)
      case 0
      with that tr show ?thesis by simp
    next
      case (Suc n)
      from that(1) tr Suc have n: "n < length (io_to_emit cs (md_receiver_id data) data @ [Emit s data])"
        by simp
      from that(2) tr Suc have "(io_to_emit cs (md_receiver_id data) data @ [Emit s data]) ! n = Emit x p"
        by simp
      with nth_mem [OF n]
      have "Emit x p \<in> set (io_to_emit cs (md_receiver_id data) data @ [Emit s data])"
        by simp
      then have "p = data" using io_to_emit_payload [of x p cs "md_receiver_id data" data] by auto
      with Suc show ?thesis by simp
    qed
    have c1: "\<forall>e. res = Some e \<longrightarrow> tr = [] \<and> d' = d"
      using r by simp
    have c2: "\<exists>row. tr ! 0 = Persist row \<and> messages d' = messages d @ [row] \<and>
               md_sender_id data = Val (m_sender_id row) \<and>
               md_receiver_id data = Val (m_receiver_id row) \<and>
               md_content data = Val (m_content row)"
      using fields msgs by (intro exI [of _ row]) (simp add: tr)
    have c3: "\<exists>row. tr ! 0 = Persist row \<and> row \<in> set (messages d')"
      using msgs by (intro exI [of _ row]) (simp add: tr)
    from c1 c2 c3 emits r show ?thesis by blast
  qed
qed

text \<open>
  Witness for C10: a message from alice (socket s1) to bob is stored and then emitted to
  s2 and echoed to s1; with a NULL content the insert fails and the trace is empty.
\<close>

theorem persisted_before_emitted_witness:
  "fst (on_send_message 7 (seed_db 0) conns0 ''s1'' (data0 ''alice'' ''bob'')) = None \<and>
   snd (snd (on_send_message 7 (seed_db 0) conns0 ''s1'' (data0 ''alice'' ''bob''))) =
     [ Persist \<lparr> m_id = 1, m_sender_id = ''alice'', m_receiver_id = ''bob'', m_content = ''hi'',
                 m_timestamp = 7 \<rparr>,
       Emit ''s2'' (data0 ''alice'' ''bob''), Emit ''s1'' (data0 ''alice'' ''bob'') ] \<and>
   on_send_message 7 (seed_db 0) conns0 ''s1'' ((data0 ''alice'' ''bob'')\<lparr>md_content := Null\<rparr>)
     = (Some (NotNullFailed ''messages.content''), seed_db 0, [])"
proof -
  let ?bad = "(data0 ''alice'' ''bob'')\<lparr>md_content := Null\<rparr>"
  have 1: "fst (on_send_message 7 (seed_db 0) conns0 ''s1'' (data0 ''alice'' ''bob'')) = None"
    and 2: "snd (snd (on_send_message 7 (seed_db 0) conns0 ''s1'' (data0 ''alice'' ''bob''))) =
     [ Persist \<lparr> m_id = 1, m_sender_id = ''alice'', m_receiver_id = ''bob'', m_content = ''hi'',
                 m_timestamp = 7 \<rparr>,
       Emit ''s2'' (data0 ''alice'' ''bob''), Emit ''s1'' (data0 ''alice'' ''bob'') ]"
    by (simp_all add: relay_defs insert_message_def next_message_id_def seed_db_def Let_def)
  have 3: "fst (on_send_message 7 (seed_db 0) conns0 ''s1'' ?bad) = Some (NotNullFailed ''messages.content'')"
    by (simp add: relay_defs insert_message_def Let_def)
  let ?r = "on_send_message 7 (seed_db 0) conns0 ''s1'' ?bad"
  have eq: "?r = (Some (NotNullFailed ''messages.content''), fst (snd ?r), snd (snd ?r))"
    using 3 by (simp add: prod_eq_iff)
  from persisted_before_emitted [OF eq]
  have "snd (snd ?r) = [] \<and> fst (snd ?r) = seed_db 0"
    by blast
  with eq have 4: "?r = (Some (NotNullFailed ''messages.content''), seed_db 0, [])"
    by simp
  from 1 2 4 show ?thesis by blast
qed

lemma count_by_key:
  "distinct (map f xs) \<Longrightarrow>
     length (filter (\<lambda>c. f c = x \<and> P c) xs) = (if list_ex (\<lambda>c. f c = x \<and> P c) xs then 1 else 0)"
proof (induction xs)
  case Nil
  then show ?case by simp
next
  case (Cons a xs)
  from Cons.prems have d: "distinct (map f xs)" and na: "f a \<notin> f ` set xs" by simp_all
  show ?case
  proof (cases "f a = x \<and> P a")
    case True
    from na have "\<forall>c \<in> set xs. f c \<noteq> f a" by (metis image_eqI)
    with True have "filter (\<lambda>c. f c = x \<and> P c) xs = []"
      by (simp add: filter_empty_conv)
    with True show ?thesis by simp
  next
    case False
    with Cons.IH [OF d] show ?thesis by auto
  qed
qed

lemma deliveries_io_to_emit:
  assumes "distinct (map socket_id cs)"
  shows "deliveries (io_to_emit cs (Val B) data) x = (if in_room cs x B then 1 else 0)"
proof -
  have "deliveries (io_to_emit cs (Val B) data) x =
          length (filter (\<lambda>c. socket_id c = x \<and> B \<in> set (rooms c)) cs)"
    by (simp add: deliveries_def io_to_emit_def filter_map comp_def conj_commute image_iff)
  with count_by_key [OF assms, of x "\<lambda>c. B \<in> set (rooms c)"] show ?thesis
    by (simp add: in_room_def)
qed

lemma deliveries_append: "deliveries (xs @ ys) x = deliveries xs x + deliveries ys x"
  by (simp add: deliveries_def)

text \<open>
  Claim C2, as amended. For a \<open>send_message\<close> event on socket \<open>s\<close> that is
  persisted, with receiver \<open>B\<close>, and connections with distinct socket ids: every
  socket gets one copy if it is in the room of \<open>B\<close>, plus one copy if it is the
  sending socket. So a connection in the room of \<open>B\<close> other than the sender gets the
  message exactly once, the sender gets exactly one copy (the echo) when it is not in
  the room of \<open>B\<close> and exactly two when it is, and any other socket gets none.
\<close>

theorem deliveries_of_send_message:
  assumes "distinct (map socket_id cs)" and "on_send_message t d cs s data = (None, d', tr)"
  shows "\<exists>B. md_receiver_id data = Val B \<and>
           (\<forall>x. deliveries tr x = (if in_room cs x B then 1 else 0) + (if x = s then 1 else 0))"
proof -
  from on_send_message_cases [OF assms(2)] obtain row where
    ins: "insert_message t d (bind_param (md_sender_id data))
              (bind_param (md_receiver_id data)) (bind_param (md_content data)) = Inr (row, d')"
    and tr: "tr = Persist row # io_to_emit cs (md_receiver_id data) data @ [Emit s data]"
    by auto
  from bind_param_not_None [OF insert_message_Inr(2) [OF ins]]
  obtain B where B: "md_receiver_id data = Val B" by blast
  have "deliveries tr x = (if in_room cs x B then 1 else 0) + (if x = s then 1 else 0)" for x
  proof -
    have "deliveries tr x = deliveries (io_to_emit cs (Val B) data) x + deliveries [Emit s data] x"
      unfolding tr B using deliveries_append [of "io_to_emit cs (Val B) data" "[Emit s data]" x]
      by (simp add: deliveries_def)
    also have "deliveries [Emit s data] x = (if x = s then 1 else 0)"
      by (auto simp: deliveries_def)
    finally show ?thesis by (simp add: deliveries_io_to_emit [OF assms(1)])
  qed
  with B show ?thesis by blast
qed

text \<open>
  Witness for C2: alice on s1 writes to bob on s2; each gets one copy, a third socket
  none.
\<close>

theorem deliveries_of_send_message_witness:
  "distinct (map socket_id conns0) \<and>
   fst (on_send_message 7 (seed_db 0) conns0 ''s1'' (data0 ''alice'' ''bob'')) = None \<and>
   deliveries (snd (snd (on_send_message 7 (seed_db 0) conns0 ''s1'' (data0 ''alice'' ''bob'')))) ''s2'' = 1 \<and>
   deliveries (snd (snd (on_send_message 7 (seed_db 0) conns0 ''s1'' (data0 ''alice'' ''bob'')))) ''s1'' = 1 \<and>
   deliveries (snd (snd (on_send_message 7 (seed_db 0) conns0 ''s1'' (data0 ''alice'' ''bob'')))) ''s3'' = 0"
proof -
  let ?r = "on_send_message 7 (seed_db 0) conns0 ''s1'' (data0 ''alice'' ''bob'')"
  have dist: "distinct (map socket_id conns0)"
    by (simp add: relay_defs)
  have ok: "fst ?r = None"
    by (simp add: relay_defs insert_message_def Let_def)
  then have eq: "?r = (None, fst (snd ?r), snd (snd ?r))"
    by (simp add: prod_eq_iff)
  have rooms: "in_room conns0 ''s2'' ''bob''" "\<not> in_room conns0 ''s1'' ''bob''"
    "\<not> in_room conns0 ''s3'' ''bob''"
    by (simp_all add: relay_defs)
  from deliveries_of_send_message [OF dist eq] rooms
  have "deliveries (snd (snd ?r)) ''s2'' = 1 \<and> deliveries (snd (snd ?r)) ''s1'' = 1 \<and>
        deliveries (snd (snd ?r)) ''s3'' = 0"
    by (simp add: data0_def)
  with dist ok show ?thesis by blast
qed

text \<open>
  Counterexample to C2 as stated (exactly one copy for every configuration, including
  A = B): alice, whose socket s1 has joined her own room, writes to herself; s1 is in
  the receiver's room and is also the sender, and gets the message twice.
\<close>

theorem sender_in_receiver_room_counterexample:
  "in_room conns0 ''s1'' ''alice'' \<and>
   fst (on_send_message 7 (seed_db 0) conns0 ''s1'' (data0 ''alice'' ''alice'')) = None \<and>
   snd (snd (on_send_message 7 (seed_db 0) conns0 ''s1'' (data0 ''alice'' ''alice''))) =
     [ Persist \<lparr> m_id = 1, m_sender_id = ''alice'', m_receiver_id = ''alice'', m_content = ''hi'',
                 m_timestamp = 7 \<rparr>,
       Emit ''s1'' (data0 ''alice'' ''alice''), Emit ''s1'' (data0 ''alice'' ''alice'') ] \<and>
   deliveries (snd (snd (on_send_message 7 (seed_db 0) conns0 ''s1'' (data0 ''alice'' ''alice'')))) ''s1'' = 2"
  by (simp add: relay_defs insert_message_def next_message_id_def seed_db_def Let_def)

subsection \<open>Listing projects\<close>

lemma select_projects_sorted:
  "sorted_wrt (\<lambda>a b. p_created_at (fst b) \<le> p_created_at (fst a)) (select_projects d)"
proof -
  let ?k = "\<lambda>row :: project \<times> string. - int (p_created_at (fst row))"
  let ?xs = "concat (map (\<lambda>p. map (\<lambda>u. (p, u_name u))
                            (filter (\<lambda>u. u_id u = Some (p_buyer_id p)) (users d)))
                    (projects d))"
  have "sorted (map ?k (sort_key ?k ?xs))" by (rule sorted_sort_key)
  then have "sorted_wrt (\<lambda>a b. ?k a \<le> ?k b) (sort_key ?k ?xs)"
    by (simp only: sorted_map)
  then have "sorted_wrt (\<lambda>a b. p_created_at (fst b) \<le> p_created_at (fst a)) (sort_key ?k ?xs)"
    by (rule sorted_wrt_mono_rel [rotated]) simp
  then show ?thesis by (simp only: select_projects_def)
qed

lemma select_projects_rows:
  "row \<in> set (select_projects d) \<longleftrightarrow>
     fst row \<in> set (projects d) \<and>
     (\<exists>u. u \<in> set (users d) \<and> u_id u = Some (p_buyer_id (fst row)) \<and> u_name u = snd row)"
  by (cases row) (auto simp: select_projects_def)

lemma unique_match:
  "unique_keys (map u_id us) \<Longrightarrow> u \<in> set us \<Longrightarrow> u_id u = Some k \<Longrightarrow>
     filter (\<lambda>x. u_id x = Some k) us = [u]"
proof (induction us)
  case Nil
  then show ?case by simp
next
  case (Cons a us)
  show ?case
  proof (cases "u_id a = Some k")
    case True
    with Cons.prems(1) have "Some k \<notin> set (map u_id us)"
      by (simp add: unique_keys_def)
    then have none: "\<forall>x \<in> set us. u_id x \<noteq> Some k"
      by (metis image_eqI set_map)
    with Cons.prems(2,3) have "u = a" by auto
    moreover from none have "filter (\<lambda>x. u_id x = Some k) us = []"
      by (simp add: filter_empty_conv)
    ultimately show ?thesis using True by simp
  next
    case False
    with Cons.prems have "u \<in> set us" "unique_keys (map u_id us)"
      by (auto simp: unique_keys_def split: if_splits)
    from Cons.IH [OF this(2,1) Cons.prems(3)] False show ?thesis by simp
  qed
qed

lemma joined_all:
  assumes "unique_keys (map u_id us)"
    and "list_all (\<lambda>p. Some (p_buyer_id p) \<in> set (map u_id us)) ps"
  shows "map fst (concat (map (\<lambda>p. map (\<lambda>u. (p, u_name u))
                            (filter (\<lambda>u. u_id u = Some (p_buyer_id p)) us)) ps)) = ps"
  using assms(2)
proof (induction ps)
  case Nil
  then show ?case by simp
next
  case (Cons p ps)
  from Cons.prems obtain u where u: "u \<in> set us" "u_id u = Some (p_buyer_id p)"
    by force
  from unique_match [OF assms(1) u] Cons show ?case by simp
qed

lemma select_projects_complete:
  assumes "wf_db d" and "fk_ok d"
  shows "mset (map fst (select_projects d)) = mset (projects d)"
proof -
  from assms have "unique_keys (map u_id (users d))"
    "list_all (\<lambda>p. Some (p_buyer_id p) \<in> set (map u_id (users d))) (projects d)"
    by (simp_all add: wf_db_def fk_ok_def)
  from joined_all [OF this]
  have "map fst (concat (map (\<lambda>p. map (\<lambda>u. (p, u_name u))
                            (filter (\<lambda>u. u_id u = Some (p_buyer_id p)) (users d)))
                    (projects d))) = projects d" .
  then have "image_mset fst (mset (concat (map (\<lambda>p. map (\<lambda>u. (p, u_name u))
                            (filter (\<lambda>u. u_id u = Some (p_buyer_id p)) (users d)))
                    (projects d)))) = mset (projects d)"
    by (simp only: flip: mset_map)
  then show ?thesis
    by (simp only: select_projects_def mset_map mset_sort)
qed

lemma post_projects_created_row:
  assumes "post_projects en d b = (r, d')" and "status r = 201"
  shows "users d' = users d \<and>
         \<not> key_taken (bind_param (pb_id b)) (map p_id (projects d)) \<and>
         projects d' = projects d @
           [\<lparr> p_id = bind_param (pb_id b), p_buyer_id = the (bind_param (pb_buyer_id b)),
              p_title = the (bind_param (pb_title b)),
              p_description = the (bind_param (pb_description b)),
              p_budget_min = bind_param (pb_budget_min b),
              p_budget_max = bind_param (pb_budget_max b), p_status = ''open'',
              p_created_at = now en \<rparr>]"
proof -
  from post_projects_created [OF assms] obtain d1 where
    ip: "insert_project (foreign_keys en) (now en) d (bind_param (pb_id b))
             (bind_param (pb_buyer_id b)) (bind_param (pb_title b))
             (bind_param (pb_description b)) (bind_param (pb_budget_min b))
             (bind_param (pb_budget_max b)) = Inr d1" and
    im: "insert_milestones (foreign_keys en) d1 (auto_milestones en b) = (None, d')"
    by blast
  from insert_milestones_None [OF im] have
    "users d' = users d1" "projects d' = projects d1" by simp_all
  with insert_project_Inr(4) [OF ip] show ?thesis
    by (simp add: insert_project_Inr(6) [OF ip])
qed

text \<open>
  Claim C7. GET /api/projects answers 200 with the rows of the join, newest first: the
  list is sorted by created_at, descending; a row is in the list exactly when its
  project is stored and its buyer_name is the name of the user whose id is the
  project's buyer_id; on a store with unique keys and referential integrity the listed
  projects are exactly the stored ones, each once. After a create-project request for
  id \<open>pid\<close> and buyer \<open>bu\<close> that is answered with 201, where \<open>u\<close> is the stored
  user with id \<open>bu\<close>, the listing has exactly one row with id \<open>pid\<close>: the new
  project, with buyer_name the name of \<open>u\<close>.
\<close>

theorem list_projects_newest_first:
  "handle en d GET_projects = (\<lparr> status = 200, body = ProjectList (select_projects d) \<rparr>, d, []) \<and>
   sorted_wrt (\<lambda>a b. p_created_at (fst b) \<le> p_created_at (fst a)) (select_projects d) \<and>
   (row \<in> set (select_projects d) \<longleftrightarrow>
      fst row \<in> set (projects d) \<and>
      (\<exists>u. u \<in> set (users d) \<and> u_id u = Some (p_buyer_id (fst row)) \<and> u_name u = snd row)) \<and>
   (wf_db d \<and> fk_ok d \<longrightarrow> mset (map fst (select_projects d)) = mset (projects d)) \<and>
   (wf_db d \<and> post_projects en d b = (r, d') \<and> status r = 201 \<and> pb_id b = Val pid \<and>
    pb_buyer_id b = Val bu \<and> u \<in> set (users d) \<and> u_id u = Some bu \<longrightarrow>
      filter (\<lambda>row. p_id (fst row) = Some pid) (select_projects d') =
        [(\<lparr> p_id = Some pid, p_buyer_id = bu, p_title = the (bind_param (pb_title b)),
            p_description = the (bind_param (pb_description b)),
            p_budget_min = bind_param (pb_budget_min b),
            p_budget_max = bind_param (pb_budget_max b), p_status = ''open'',
            p_created_at = now en \<rparr>, u_name u)])"
proof -
  have a: "handle en d GET_projects
             = (\<lparr> status = 200, body = ProjectList (select_projects d) \<rparr>, d, [])"
    by (simp add: get_projects_def json_def)
  have e: "filter (\<lambda>row. p_id (fst row) = Some pid) (select_projects d') =
        [(\<lparr> p_id = Some pid, p_buyer_id = bu, p_title = the (bind_param (pb_title b)),
            p_description = the (bind_param (pb_description b)),
            p_budget_min = bind_param (pb_budget_min b),
            p_budget_max = bind_param (pb_budget_max b), p_status = ''open'',
            p_created_at = now en \<rparr>, u_name u)]"
    if wf: "wf_db d" and post: "post_projects en d b = (r, d')" and st: "status r = 201"
      and pid: "pb_id b = Val pid" and bu: "pb_buyer_id b = Val bu"
      and u: "u \<in> set (users d)" "u_id u = Some bu"
  proof -
    let ?P = "\<lparr> p_id = Some pid, p_buyer_id = bu, p_title = the (bind_param (pb_title b)),
            p_description = the (bind_param (pb_description b)),
            p_budget_min = bind_param (pb_budget_min b),
            p_budget_max = bind_param (pb_budget_max b), p_status = ''open'',
            p_created_at = now en \<rparr>"
    let ?g = "\<lambda>p. map (\<lambda>u. (p, u_name u)) (filter (\<lambda>u. u_id u = Some (p_buyer_id p)) (users d))"
    let ?Q = "\<lambda>row :: project \<times> string. p_id (fst row) = Some pid"
    from post_projects_created_row [OF post st] pid bu have
      us: "users d' = users d" and
      fresh: "Some pid \<notin> set (map p_id (projects d))" and
      ps: "projects d' = projects d @ [?P]"
      by (simp_all add: key_taken_def)
    from wf have uk: "unique_keys (map u_id (users d))" by (simp add: wf_db_def)
    from fresh have "\<forall>y \<in> set (projects d). p_id y \<noteq> Some pid"
      by (metis image_eqI set_map)
    then have old: "filter ?Q (concat (map ?g (projects d))) = []"
      by (auto simp: filter_empty_conv)
    have new: "filter ?Q (?g ?P) = [(?P, u_name u)]"
      using unique_match [OF uk u] by simp
    have "filter ?Q (select_projects d') =
            sort_key (\<lambda>row. - int (p_created_at (fst row))) (filter ?Q (concat (map ?g (projects d @ [?P]))))"
      by (simp only: select_projects_def filter_sort us ps)
    also have "filter ?Q (concat (map ?g (projects d @ [?P]))) = [(?P, u_name u)]"
      using old new by simp
    finally show ?thesis by simp
  qed
  from a e select_projects_sorted [of d] select_projects_rows [of row d]
    select_projects_complete [of d]
  show ?thesis by blast
qed

text \<open>
  Witness for C7: after buyer_1 creates p3 at time 1 on the store seeded at time 0, the
  listing is p3, p1, p2, and p3 appears once with buyer_name Acme Corp HR.
\<close>

theorem list_projects_newest_first_witness:
  "status (fst (post_projects (env0 True) (seed_db 0) (body0 (Val 1000)))) = 201 \<and>
   map (\<lambda>row. (p_id (fst row), p_created_at (fst row), snd row))
     (select_projects (snd (post_projects (env0 True) (seed_db 0) (body0 (Val 1000))))) =
     [(Some ''p3'', 1, ''Acme Corp HR''), (Some ''p1'', 0, ''Acme Corp HR''),
      (Some ''p2'', 0, ''Acme Corp HR'')] \<and>
   map snd (filter (\<lambda>row. p_id (fst row) = Some ''p3'')
     (select_projects (snd (post_projects (env0 True) (seed_db 0) (body0 (Val 1000)))))) =
     [''Acme Corp HR'']"
proof -
  let ?r = "post_projects (env0 True) (seed_db 0) (body0 (Val 1000))"
  let ?u = "\<lparr> u_id = Some ''buyer_1'', u_name = ''Acme Corp HR'', u_email = ''hr@acme.com'',
             u_role = ''buyer'',
             u_bio = Some ''Fast-growing tech startup looking for HR expertise.'',
             u_avatar = Some ''https://api.dicebear.com/7.x/avataaars/svg?seed=Acme'' \<rparr>"
  have st: "status (fst ?r) = 201"
    by (simp add: post_projects_def auto_milestones_def math_floor_times_norm stmt_defs
        resp_defs env0_def body0_def seed_db_def)
  have all: "map (\<lambda>row. (p_id (fst row), p_created_at (fst row), snd row)) (select_projects (snd ?r)) =
     [(Some ''p3'', 1, ''Acme Corp HR''), (Some ''p1'', 0, ''Acme Corp HR''),
      (Some ''p2'', 0, ''Acme Corp HR'')]"
    by (simp add: post_projects_def auto_milestones_def math_floor_times_norm stmt_defs
        resp_defs env0_def body0_def seed_db_def select_projects_def)
  have hyp: "wf_db (seed_db 0) \<and> ?r = (fst ?r, snd ?r) \<and> status (fst ?r) = 201 \<and>
      pb_id (body0 (Val 1000)) = Val ''p3'' \<and> pb_buyer_id (body0 (Val 1000)) = Val ''buyer_1'' \<and>
      ?u \<in> set (users (seed_db 0)) \<and> u_id ?u = Some ''buyer_1''"
    using st wf_db_seed [of 0] by (simp add: body0_def seed_db_def)
  from list_projects_newest_first
    [where en = "env0 True" and d = "seed_db 0" and b = "body0 (Val 1000)" and r = "fst ?r"
       and d' = "snd ?r" and pid = "''p3''" and bu = "''buyer_1''" and u = ?u] hyp
  have "map snd (filter (\<lambda>row. p_id (fst row) = Some ''p3'') (select_projects (snd ?r))) =
     [''Acme Corp HR'']"
    by simp
  with st all show ?thesis by blast
qed

end
